theory Spec2Isabelle
  imports Complex_Main "HOL-Library.Sublist"
begin

section \<open>Data model\<close>

text \<open>
  The conversation-flow engine of the customer-support chatbot: the question trees and
  their navigation, the resolution-path table and its matcher, answer validation and
  normalisation, and the in-memory session store.

  Modelling conventions.
  \<^item> A TypeScript string is a \<^typ>\<open>string\<close>: a list of code units, here the code units
    below 256 (so \<open>length\<close> is \<open>String.length\<close> on such strings).
  \<^item> An optional property \<open>p?: T\<close> is a field of type \<open>T option\<close>.
  \<^item> A plain object used as a dictionary (\<open>Record<string, T>\<close>) is given by its own
    properties: a map \<^typ>\<open>string \<rightharpoonup> string\<close>, or an association list in declaration
    order for an object literal of the configuration.  Reading \<open>o[k]\<close> goes through
    \<open>getProperty\<close>, which also finds the members inherited from \<open>Object.prototype\<close>.
  \<^item> A \<open>TypeError\<close> thrown by the platform is the value \<open>Inl TypeError\<close>.
  \<^item> The clock (\<open>new Date()\<close>), \<open>uuidv4()\<close> and \<open>Math.random()\<close> are inputs of the
    functions that call them; a \<open>Date\<close> is its \<open>getTime()\<close> value in milliseconds.
\<close>

datatype IssueCategory =
  ORDER_STATUS | DELIVERY_PROBLEM | PAYMENT_ISSUE | REFUND_REQUEST | PRODUCT_DEFECT
  | ACCOUNT_ACCESS | BILLING_INQUIRY | CANCELLATION | OTHER

datatype QuestionType =
  SINGLE_CHOICE | MULTIPLE_CHOICE | TEXT_INPUT | YES_NO | DATE | ORDER_ID

datatype ResolutionType =
  SELF_SERVICE | AUTOMATED_ACTION | ESCALATE_AGENT | ESCALATE_SPECIALIST
  | INFORMATION_PROVIDED

datatype ConversationMode = SYSTEM_INITIATED | USER_INITIATED

datatype RuleType = Required | Pattern | MinLength | MaxLength | Custom

text \<open>\<open>value?: string | number\<close> of a validation rule.\<close>

datatype RuleValue = VString string | VNumber real

record ValidationRule =
  rtype :: RuleType
  rvalue :: "RuleValue option"
  errorMessage :: string

record Question =
  qid :: string
  qtext :: string
  qtype :: QuestionType
  options :: "string list option"
  nextQuestionMap :: "(string \<times> string) list option"
  validationRules :: "ValidationRule list option"

record QuestionTree =
  category :: IssueCategory
  rootQuestionId :: string
  questions :: "(string \<times> Question) list"

text \<open>\<open>expectedAnswer: string | string[]\<close> of a resolution condition.\<close>

datatype ExpectedAnswer = ExpString string | ExpList "string list"

datatype Operator = Equals | Contains | In | GreaterThan | LessThan

record ResolutionCondition =
  questionId :: string
  expectedAnswer :: ExpectedAnswer
  operator :: Operator

record ResolutionPath =
  pid :: string
  pcategory :: IssueCategory
  ptype :: ResolutionType
  conditions :: "ResolutionCondition list"
  steps :: "string list option"
  escalationReason :: "string option"
  estimatedTime :: "string option"
  requiresData :: "string list option"

datatype Priority = low | medium | high | urgent

record EscalationDetails =
  team :: string
  priority :: Priority
  estimatedResponseTime :: string
  ticketNumber :: string

record Resolution =
  res_type :: ResolutionType
  message :: string
  res_steps :: "string list option"
  escalationDetails :: "EscalationDetails option"
  referenceNumber :: "string option"

section \<open>Strings of the platform\<close>

text \<open>
  White space as \<open>String.prototype.trim\<close> and the class \<open>\s\<close> see it, on the code
  units below 256: tab, line feed, vertical tab, form feed, carriage return, space and
  the no-break space.
\<close>

definition isWhiteSpace :: "char \<Rightarrow> bool" where
  "isWhiteSpace c =
     (let n = of_char c :: nat in (9 \<le> n \<and> n \<le> 13) \<or> n = 32 \<or> n = 160)"

definition trim :: "string \<Rightarrow> string" where
  "trim s = rev (dropWhile isWhiteSpace (rev (dropWhile isWhiteSpace s)))"

text \<open>
  Case mapping of one code unit below 256: the letters A-Z and the Latin-1 letters
  0xC0-0xDE without the multiplication sign 0xD7.
\<close>

definition lowerChar :: "char \<Rightarrow> char" where
  "lowerChar c =
     (let n = of_char c :: nat
      in if (65 \<le> n \<and> n \<le> 90) \<or> (192 \<le> n \<and> n \<le> 222 \<and> n \<noteq> 215)
         then char_of (n + 32) else c)"

definition toLowerCase :: "string \<Rightarrow> string" where
  "toLowerCase s = map lowerChar s"

text \<open>
  Upper-casing: a-z and the Latin-1 letters 0xE0-0xFE without the division sign 0xF7;
  the sharp s 0xDF becomes \<open>SS\<close>.  The micro sign 0xB5 and 0xFF have upper-case forms
  outside the code units modelled here and are left as they are.
\<close>

definition upperChar :: "char \<Rightarrow> char" where
  "upperChar c =
     (let n = of_char c :: nat
      in if (97 \<le> n \<and> n \<le> 122) \<or> (224 \<le> n \<and> n \<le> 254 \<and> n \<noteq> 247)
         then char_of (n - 32) else c)"

definition toUpperCase :: "string \<Rightarrow> string" where
  "toUpperCase s =
     concat (map (\<lambda>c. if of_char c = (223::nat) then ''SS'' else [upperChar c]) s)"

definition isDigit :: "char \<Rightarrow> bool" where
  "isDigit c = (let n = of_char c :: nat in 48 \<le> n \<and> n \<le> 57)"

definition digitValue :: "char \<Rightarrow> nat" where
  "digitValue c = of_char c - 48"

text \<open>\<open>parseInt(s, 10)\<close> on a string of decimal digits.\<close>

definition parseInt :: "string \<Rightarrow> nat" where
  "parseInt s = foldl (\<lambda>acc c. 10 * acc + digitValue c) 0 s"

text \<open>Decimal digits of a number, \<open>Number.prototype.toString\<close> on a natural number.\<close>

fun toDecimal :: "nat \<Rightarrow> string" where
  "toDecimal n =
     (if n < 10 then [char_of (48 + n)]
      else toDecimal (n div 10) @ [char_of (48 + n mod 10)])"

declare toDecimal.simps [simp del]

definition padStart :: "nat \<Rightarrow> char \<Rightarrow> string \<Rightarrow> string" where
  "padStart n c s = replicate (n - length s) c @ s"

text \<open>\<open>String.prototype.includes\<close>: \<open>needle\<close> occurs in \<open>hay\<close> as a substring.\<close>

fun startsWith :: "string \<Rightarrow> string \<Rightarrow> bool" where
  "startsWith hay [] = True"
| "startsWith [] (n # ns) = False"
| "startsWith (h # hs) (n # ns) = (h = n \<and> startsWith hs ns)"

fun String_includes :: "string \<Rightarrow> string \<Rightarrow> bool" where
  "String_includes [] needle = (needle = [])"
| "String_includes (h # hs) needle = (startsWith (h # hs) needle \<or> String_includes hs needle)"

subsection \<open>Regular expressions\<close>

text \<open>
  \<open>new RegExp(p).test(s)\<close> for the patterns the question trees use: an optional \<open>^\<close>,
  then atoms (a literal, \<open>.\<close>, an escaped character, \<open>\s\<close>, \<open>\d\<close>, \<open>\w\<close>, or a class
  \<open>[...]\<close> of characters, ranges and these escapes, possibly negated), each with an
  optional quantifier \<open>*\<close>, \<open>+\<close>, \<open>?\<close> or \<open>{n}\<close>, then an optional \<open>$\<close>.  No flags: the
  match is case sensitive, \<open>$\<close> is the end of the input, and without \<open>^\<close> the match may
  start anywhere.  A pattern outside this fragment has no compiled form here, and
  \<open>RegExp_test\<close> stands for the platform on the patterns of the fragment only.
\<close>

datatype ClassItem = CChar char | CRange char char | CSpace | CDigit | CWord

datatype Atom = Lit char | AnyChar | Class bool "ClassItem list"

datatype Piece = One Atom | Opt Atom | Star Atom

datatype Token = TAtom Atom | TStar | TPlus | TOpt | TRep nat | TCaret | TDollar

datatype ScanMode = Top | InClass bool "ClassItem list" | InRep "nat option"

definition isWordChar :: "char \<Rightarrow> bool" where
  "isWordChar c =
     (let n = of_char c :: nat
      in (48 \<le> n \<and> n \<le> 57) \<or> (65 \<le> n \<and> n \<le> 90) \<or> (97 \<le> n \<and> n \<le> 122) \<or> n = 95)"

definition isAlphaNum :: "char \<Rightarrow> bool" where
  "isAlphaNum c =
     (let n = of_char c :: nat
      in (48 \<le> n \<and> n \<le> 57) \<or> (65 \<le> n \<and> n \<le> 90) \<or> (97 \<le> n \<and> n \<le> 122))"

text \<open>An escape \<open>\c\<close>: a class escape, or the character itself when it is not a letter or digit.\<close>

definition escapeItem :: "char \<Rightarrow> ClassItem option" where
  "escapeItem c =
     (if c = CHR ''s'' then Some CSpace
      else if c = CHR ''d'' then Some CDigit
      else if c = CHR ''w'' then Some CWord
      else if isAlphaNum c then None
      else Some (CChar c))"

fun consTok :: "Token \<Rightarrow> Token list option \<Rightarrow> Token list option" where
  "consTok t None = None"
| "consTok t (Some ts) = Some (t # ts)"

fun scan :: "ScanMode \<Rightarrow> string \<Rightarrow> Token list option" where
  "scan Top [] = Some []"
| "scan Top (c # cs) =
     (if c = CHR ''['' then
        (case cs of
           [] \<Rightarrow> None
         | x # cs' \<Rightarrow>
             if x = CHR ''^'' then scan (InClass True []) cs'
             else scan (InClass False []) cs)
      else if c = CHR 0x5C then
        (case cs of
           [] \<Rightarrow> None
         | e # cs' \<Rightarrow>
             (case escapeItem e of
                None \<Rightarrow> None
              | Some (CChar x) \<Rightarrow> consTok (TAtom (Lit x)) (scan Top cs')
              | Some item \<Rightarrow> consTok (TAtom (Class False [item])) (scan Top cs')))
      else if c = CHR ''.'' then consTok (TAtom AnyChar) (scan Top cs)
      else if c = CHR ''*'' then consTok TStar (scan Top cs)
      else if c = CHR ''+'' then consTok TPlus (scan Top cs)
      else if c = CHR ''?'' then consTok TOpt (scan Top cs)
      else if c = CHR ''^'' then consTok TCaret (scan Top cs)
      else if c = CHR ''$'' then consTok TDollar (scan Top cs)
      else if c = CHR ''{'' then scan (InRep None) cs
      else if c = CHR ''('' \<or> c = CHR '')'' \<or> c = CHR ''|'' \<or> c = CHR '']'' \<or> c = CHR ''}''
        then None
      else consTok (TAtom (Lit c)) (scan Top cs))"
| "scan (InClass neg acc) [] = None"
| "scan (InClass neg acc) (c # cs) =
     (if c = CHR '']'' then consTok (TAtom (Class neg (rev acc))) (scan Top cs)
      else if c = CHR 0x5C then
        (case cs of
           [] \<Rightarrow> None
         | e # cs' \<Rightarrow>
             (case escapeItem e of
                None \<Rightarrow> None
              | Some item \<Rightarrow> scan (InClass neg (item # acc)) cs'))
      else
        (case cs of
           d # h # cs' \<Rightarrow>
             if d = CHR ''-'' \<and> h \<noteq> CHR '']'' then
               (if h = CHR 0x5C \<or> (of_char h :: nat) < of_char c then None
                else scan (InClass neg (CRange c h # acc)) cs')
             else scan (InClass neg (CChar c # acc)) cs
         | _ \<Rightarrow> scan (InClass neg (CChar c # acc)) cs))"
| "scan (InRep n) [] = None"
| "scan (InRep n) (c # cs) =
     (if c = CHR ''}'' then
        (case n of None \<Rightarrow> None | Some k \<Rightarrow> consTok (TRep k) (scan Top cs))
      else if isDigit c then
        scan (InRep (Some (10 * (case n of None \<Rightarrow> 0 | Some k \<Rightarrow> k) + digitValue c))) cs
      else None)"

fun addPieces :: "Piece list \<Rightarrow> (Piece list \<times> bool) option \<Rightarrow> (Piece list \<times> bool) option" where
  "addPieces ps None = None"
| "addPieces ps (Some (qs, e)) = Some (ps @ qs, e)"

fun pieces :: "Token list \<Rightarrow> (Piece list \<times> bool) option" where
  "pieces [] = Some ([], False)"
| "pieces [TDollar] = Some ([], True)"
| "pieces (TAtom a # TStar # ts) = addPieces [Star a] (pieces ts)"
| "pieces (TAtom a # TPlus # ts) = addPieces [One a, Star a] (pieces ts)"
| "pieces (TAtom a # TOpt # ts) = addPieces [Opt a] (pieces ts)"
| "pieces (TAtom a # TRep n # ts) = addPieces (replicate n (One a)) (pieces ts)"
| "pieces (TAtom a # ts) = addPieces [One a] (pieces ts)"
| "pieces ts = None"

record RegExp =
  anchoredStart :: bool
  body :: "Piece list"
  anchoredEnd :: bool

definition compileRegExp :: "string \<Rightarrow> RegExp option" where
  "compileRegExp p =
     (case scan Top p of
        None \<Rightarrow> None
      | Some ts \<Rightarrow>
          (case ts of
             TCaret # ts' \<Rightarrow>
               map_option (\<lambda>(ps, e). \<lparr>anchoredStart = True, body = ps, anchoredEnd = e\<rparr>)
                 (pieces ts')
           | _ \<Rightarrow>
               map_option (\<lambda>(ps, e). \<lparr>anchoredStart = False, body = ps, anchoredEnd = e\<rparr>)
                 (pieces ts)))"

fun itemMatches :: "ClassItem \<Rightarrow> char \<Rightarrow> bool" where
  "itemMatches (CChar x) c = (c = x)"
| "itemMatches (CRange lo hi) c =
     ((of_char lo :: nat) \<le> of_char c \<and> (of_char c :: nat) \<le> of_char hi)"
| "itemMatches CSpace c = isWhiteSpace c"
| "itemMatches CDigit c = isDigit c"
| "itemMatches CWord c = isWordChar c"

fun atomMatches :: "Atom \<Rightarrow> char \<Rightarrow> bool" where
  "atomMatches (Lit x) c = (c = x)"
| "atomMatches AnyChar c = (c \<noteq> CHR 0x0A \<and> c \<noteq> CHR 0x0D)"
| "atomMatches (Class neg items) c = (list_ex (\<lambda>i. itemMatches i c) items \<noteq> neg)"

text \<open>A match of the pieces that starts at the head of the input.\<close>

fun matchHere :: "Piece list \<Rightarrow> bool \<Rightarrow> string \<Rightarrow> bool" where
  "matchHere [] e s = (if e then s = [] else True)"
| "matchHere (One a # ps) e [] = False"
| "matchHere (One a # ps) e (c # cs) = (atomMatches a c \<and> matchHere ps e cs)"
| "matchHere (Opt a # ps) e [] = matchHere ps e []"
| "matchHere (Opt a # ps) e (c # cs) =
     ((atomMatches a c \<and> matchHere ps e cs) \<or> matchHere ps e (c # cs))"
| "matchHere (Star a # ps) e [] = matchHere ps e []"
| "matchHere (Star a # ps) e (c # cs) =
     ((atomMatches a c \<and> matchHere (Star a # ps) e cs) \<or> matchHere ps e (c # cs))"

fun matchAnywhere :: "Piece list \<Rightarrow> bool \<Rightarrow> string \<Rightarrow> bool" where
  "matchAnywhere ps e [] = matchHere ps e []"
| "matchAnywhere ps e (c # cs) = (matchHere ps e (c # cs) \<or> matchAnywhere ps e cs)"

definition RegExp_test :: "string \<Rightarrow> string \<Rightarrow> bool" where
  "RegExp_test p s =
     (case compileRegExp p of
        None \<Rightarrow> False
      | Some r \<Rightarrow>
          if anchoredStart r then matchHere (body r) (anchoredEnd r) s
          else matchAnywhere (body r) (anchoredEnd r) s)"

section \<open>Objects of the platform\<close>

text \<open>
  The property names of \<open>Object.prototype\<close>.  Every plain object inherits them: reading
  \<open>o[k]\<close> for such a name \<open>k\<close> that is not an own property of \<open>o\<close> gives the inherited
  member (a function; for \<open>__proto__\<close> the object \<open>Object.prototype\<close> itself), which is
  truthy and is not a string.
\<close>

definition objectPrototypeKeys :: "string list" where
  "objectPrototypeKeys =
     [''constructor'', ''__defineGetter__'', ''__defineSetter__'', ''hasOwnProperty'',
      ''__lookupGetter__'', ''__lookupSetter__'', ''isPrototypeOf'', ''propertyIsEnumerable'',
      ''toString'', ''valueOf'', ''__proto__'', ''toLocaleString'']"

text \<open>
  What \<open>o[k]\<close> yields when it is not \<open>undefined\<close>: the value of an own property, or
  the member of \<open>Object.prototype\<close> of the given name.
\<close>

datatype 'a Property = Own 'a | Inherited string

definition getProperty :: "(string \<rightharpoonup> 'a) \<Rightarrow> string \<Rightarrow> 'a Property option" where
  "getProperty obj k =
     (case obj k of
        Some v \<Rightarrow> Some (Own v)
      | None \<Rightarrow> if List.member objectPrototypeKeys k then Some (Inherited k) else None)"

text \<open>
  The property key a value is converted to when it is used as \<open>o[v]\<close>: a string is its
  own key, a built-in function is its source text and \<open>Object.prototype\<close> is
  \<open>[object Object]\<close>.
\<close>

definition toPropertyKey :: "string Property \<Rightarrow> string" where
  "toPropertyKey v =
     (case v of
        Own s \<Rightarrow> s
      | Inherited k \<Rightarrow>
          if k = ''__proto__'' then ''[object Object]''
          else ''function '' @ (if k = ''constructor'' then ''Object'' else k)
                 @ ''() { [native code] }'')"

datatype JsError = TypeError

section \<open>Question trees (config/questionTrees)\<close>

definition order_status_1 :: Question where
  \<open>order_status_1 =
  \<lparr>qid = ''order_status_1'',
   qtext = ''Do you have your order number?'',
   qtype = YES_NO,
   options = None,
   nextQuestionMap = Some [(''yes'', ''order_status_2''),
     (''no'', ''order_status_3'')],
   validationRules = None\<rparr>\<close>

definition order_status_2 :: Question where
  \<open>order_status_2 =
  \<lparr>qid = ''order_status_2'',
   qtext = ''Please provide your order number (format: ORD-XXXXX)'',
   qtype = ORDER_ID,
   options = None,
   nextQuestionMap = None,
   validationRules = Some [\<lparr>rtype = Required, rvalue = None, errorMessage = ''Order number is required''\<rparr>,
     \<lparr>rtype = Pattern, rvalue = Some (VString (''^ORD-[0-9]{5}$'')), errorMessage = ''Order number must be in format ORD-XXXXX''\<rparr>]\<rparr>\<close>

definition order_status_3 :: Question where
  \<open>order_status_3 =
  \<lparr>qid = ''order_status_3'',
   qtext = ''Can you provide the email address used for the order?'',
   qtype = TEXT_INPUT,
   options = None,
   nextQuestionMap = None,
   validationRules = Some [\<lparr>rtype = Required, rvalue = None, errorMessage = ''Email address is required''\<rparr>,
     \<lparr>rtype = Pattern, rvalue = Some (VString (''^[^'' @ CHR 0x5C # ''s@]+@[^'' @ CHR 0x5C # ''s@]+'' @ CHR 0x5C # ''.[^'' @ CHR 0x5C # ''s@]+$'')), errorMessage = ''Please provide a valid email address''\<rparr>]\<rparr>\<close>

definition ORDER_STATUS_TREE :: QuestionTree where
  "ORDER_STATUS_TREE =
  \<lparr>category = ORDER_STATUS,
   rootQuestionId = ''order_status_1'',
   questions = [(''order_status_1'', order_status_1),
     (''order_status_2'', order_status_2),
     (''order_status_3'', order_status_3)]\<rparr>"

definition delivery_1 :: Question where
  \<open>delivery_1 =
  \<lparr>qid = ''delivery_1'',
   qtext = ''What type of delivery problem are you experiencing?'',
   qtype = SINGLE_CHOICE,
   options = Some [''Package is delayed'',
     ''Package delivered to wrong address'',
     ''Package is damaged'',
     ''Package is lost/missing'',
     ''Other delivery issue''],
   nextQuestionMap = Some [(''Package is delayed'', ''delivery_2''),
     (''Package delivered to wrong address'', ''delivery_3''),
     (''Package is damaged'', ''delivery_4''),
     (''Package is lost/missing'', ''delivery_5''),
     (''Other delivery issue'', ''delivery_6'')],
   validationRules = None\<rparr>\<close>

definition delivery_2 :: Question where
  \<open>delivery_2 =
  \<lparr>qid = ''delivery_2'',
   qtext = ''How many days past the expected delivery date is your package?'',
   qtype = SINGLE_CHOICE,
   options = Some [''1-2 days'',
     ''3-5 days'',
     ''More than 5 days''],
   nextQuestionMap = None,
   validationRules = None\<rparr>\<close>

definition delivery_3 :: Question where
  \<open>delivery_3 =
  \<lparr>qid = ''delivery_3'',
   qtext = ''Do you know where the package was delivered?'',
   qtype = YES_NO,
   options = None,
   nextQuestionMap = Some [(''yes'', ''delivery_3a''),
     (''no'', ''delivery_3b'')],
   validationRules = None\<rparr>\<close>

definition delivery_3a :: Question where
  \<open>delivery_3a =
  \<lparr>qid = ''delivery_3a'',
   qtext = ''Please describe the location where it was delivered'',
   qtype = TEXT_INPUT,
   options = None,
   nextQuestionMap = None,
   validationRules = None\<rparr>\<close>

definition delivery_3b :: Question where
  \<open>delivery_3b =
  \<lparr>qid = ''delivery_3b'',
   qtext = ''Have you checked with neighbors or building management?'',
   qtype = YES_NO,
   options = None,
   nextQuestionMap = None,
   validationRules = None\<rparr>\<close>

definition delivery_4 :: Question where
  \<open>delivery_4 =
  \<lparr>qid = ''delivery_4'',
   qtext = ''Can you describe the damage to the package?'',
   qtype = TEXT_INPUT,
   options = None,
   nextQuestionMap = None,
   validationRules = Some [\<lparr>rtype = Required, rvalue = None, errorMessage = ''Please describe the damage''\<rparr>,
     \<lparr>rtype = MinLength, rvalue = Some (VNumber 10), errorMessage = ''Please provide more details (at least 10 characters)''\<rparr>]\<rparr>\<close>

definition delivery_5 :: Question where
  \<open>delivery_5 =
  \<lparr>qid = ''delivery_5'',
   qtext = ''When was the package supposed to be delivered?'',
   qtype = DATE,
   options = None,
   nextQuestionMap = None,
   validationRules = None\<rparr>\<close>

definition delivery_6 :: Question where
  \<open>delivery_6 =
  \<lparr>qid = ''delivery_6'',
   qtext = ''Please describe your delivery issue'',
   qtype = TEXT_INPUT,
   options = None,
   nextQuestionMap = None,
   validationRules = Some [\<lparr>rtype = Required, rvalue = None, errorMessage = ''Please describe the issue''\<rparr>]\<rparr>\<close>

definition DELIVERY_PROBLEM_TREE :: QuestionTree where
  "DELIVERY_PROBLEM_TREE =
  \<lparr>category = DELIVERY_PROBLEM,
   rootQuestionId = ''delivery_1'',
   questions = [(''delivery_1'', delivery_1),
     (''delivery_2'', delivery_2),
     (''delivery_3'', delivery_3),
     (''delivery_3a'', delivery_3a),
     (''delivery_3b'', delivery_3b),
     (''delivery_4'', delivery_4),
     (''delivery_5'', delivery_5),
     (''delivery_6'', delivery_6)]\<rparr>"

definition payment_1 :: Question where
  \<open>payment_1 =
  \<lparr>qid = ''payment_1'',
   qtext = ''What payment issue are you experiencing?'',
   qtype = SINGLE_CHOICE,
   options = Some [''Payment was declined'',
     ''Charged incorrect amount'',
     ''Charged multiple times'',
     ''Payment method not accepted'',
     ''Other payment issue''],
   nextQuestionMap = Some [(''Payment was declined'', ''payment_2''),
     (''Charged incorrect amount'', ''payment_3''),
     (''Charged multiple times'', ''payment_4''),
     (''Payment method not accepted'', ''payment_5''),
     (''Other payment issue'', ''payment_6'')],
   validationRules = None\<rparr>\<close>

definition payment_2 :: Question where
  \<open>payment_2 =
  \<lparr>qid = ''payment_2'',
   qtext = ''Have you verified that your payment method has sufficient funds?'',
   qtype = YES_NO,
   options = None,
   nextQuestionMap = None,
   validationRules = None\<rparr>\<close>

definition payment_3 :: Question where
  \<open>payment_3 =
  \<lparr>qid = ''payment_3'',
   qtext = ''What amount were you charged, and what amount did you expect?'',
   qtype = TEXT_INPUT,
   options = None,
   nextQuestionMap = None,
   validationRules = Some [\<lparr>rtype = Required, rvalue = None, errorMessage = ''Please provide both amounts''\<rparr>]\<rparr>\<close>

definition payment_4 :: Question where
  \<open>payment_4 =
  \<lparr>qid = ''payment_4'',
   qtext = ''How many times were you charged?'',
   qtype = SINGLE_CHOICE,
   options = Some [''2 times'',
     ''3 times'',
     ''More than 3 times''],
   nextQuestionMap = None,
   validationRules = None\<rparr>\<close>

definition payment_5 :: Question where
  \<open>payment_5 =
  \<lparr>qid = ''payment_5'',
   qtext = ''Which payment method are you trying to use?'',
   qtype = SINGLE_CHOICE,
   options = Some [''Credit Card'',
     ''Debit Card'',
     ''PayPal'',
     ''Other''],
   nextQuestionMap = None,
   validationRules = None\<rparr>\<close>

definition payment_6 :: Question where
  \<open>payment_6 =
  \<lparr>qid = ''payment_6'',
   qtext = ''Please describe your payment issue'',
   qtype = TEXT_INPUT,
   options = None,
   nextQuestionMap = None,
   validationRules = Some [\<lparr>rtype = Required, rvalue = None, errorMessage = ''Please describe the issue''\<rparr>]\<rparr>\<close>

definition PAYMENT_ISSUE_TREE :: QuestionTree where
  "PAYMENT_ISSUE_TREE =
  \<lparr>category = PAYMENT_ISSUE,
   rootQuestionId = ''payment_1'',
   questions = [(''payment_1'', payment_1),
     (''payment_2'', payment_2),
     (''payment_3'', payment_3),
     (''payment_4'', payment_4),
     (''payment_5'', payment_5),
     (''payment_6'', payment_6)]\<rparr>"

definition refund_1 :: Question where
  \<open>refund_1 =
  \<lparr>qid = ''refund_1'',
   qtext = ''What is the reason for your refund request?'',
   qtype = SINGLE_CHOICE,
   options = Some [''Product defective or damaged'',
     ''Wrong item received'',
     ''Changed my mind'',
     ''Better price elsewhere'',
     ''Other reason''],
   nextQuestionMap = Some [(''Product defective or damaged'', ''refund_2''),
     (''Wrong item received'', ''refund_3''),
     (''Changed my mind'', ''refund_4''),
     (''Better price elsewhere'', ''refund_4''),
     (''Other reason'', ''refund_5'')],
   validationRules = None\<rparr>\<close>

definition refund_2 :: Question where
  \<open>refund_2 =
  \<lparr>qid = ''refund_2'',
   qtext = ''Have you already returned the item?'',
   qtype = YES_NO,
   options = None,
   nextQuestionMap = Some [(''yes'', ''refund_2a''),
     (''no'', ''refund_2b'')],
   validationRules = None\<rparr>\<close>

definition refund_2a :: Question where
  \<open>refund_2a =
  \<lparr>qid = ''refund_2a'',
   qtext = ''Please provide the return tracking number'',
   qtype = TEXT_INPUT,
   options = None,
   nextQuestionMap = None,
   validationRules = Some [\<lparr>rtype = Required, rvalue = None, errorMessage = ''Tracking number is required''\<rparr>]\<rparr>\<close>

definition refund_2b :: Question where
  \<open>refund_2b =
  \<lparr>qid = ''refund_2b'',
   qtext = ''Would you like instructions on how to return the item?'',
   qtype = YES_NO,
   options = None,
   nextQuestionMap = None,
   validationRules = None\<rparr>\<close>

definition refund_3 :: Question where
  \<open>refund_3 =
  \<lparr>qid = ''refund_3'',
   qtext = ''What item did you receive instead?'',
   qtype = TEXT_INPUT,
   options = None,
   nextQuestionMap = None,
   validationRules = Some [\<lparr>rtype = Required, rvalue = None, errorMessage = ''Please describe what you received''\<rparr>]\<rparr>\<close>

definition refund_4 :: Question where
  \<open>refund_4 =
  \<lparr>qid = ''refund_4'',
   qtext = ''Is the item still in its original packaging and unused?'',
   qtype = YES_NO,
   options = None,
   nextQuestionMap = None,
   validationRules = None\<rparr>\<close>

definition refund_5 :: Question where
  \<open>refund_5 =
  \<lparr>qid = ''refund_5'',
   qtext = ''Please explain your reason for the refund'',
   qtype = TEXT_INPUT,
   options = None,
   nextQuestionMap = None,
   validationRules = Some [\<lparr>rtype = Required, rvalue = None, errorMessage = ''Please provide a reason''\<rparr>,
     \<lparr>rtype = MinLength, rvalue = Some (VNumber 10), errorMessage = ''Please provide more details''\<rparr>]\<rparr>\<close>

definition REFUND_REQUEST_TREE :: QuestionTree where
  "REFUND_REQUEST_TREE =
  \<lparr>category = REFUND_REQUEST,
   rootQuestionId = ''refund_1'',
   questions = [(''refund_1'', refund_1),
     (''refund_2'', refund_2),
     (''refund_2a'', refund_2a),
     (''refund_2b'', refund_2b),
     (''refund_3'', refund_3),
     (''refund_4'', refund_4),
     (''refund_5'', refund_5)]\<rparr>"

definition defect_1 :: Question where
  \<open>defect_1 =
  \<lparr>qid = ''defect_1'',
   qtext = ''What type of defect or issue does the product have?'',
   qtype = SINGLE_CHOICE,
   options = Some [''Product is broken or damaged'',
     ''Product does not work as expected'',
     ''Missing parts or accessories'',
     ''Wrong product received'',
     ''Product different from description''],
   nextQuestionMap = None,
   validationRules = None\<rparr>\<close>

definition defect_2 :: Question where
  \<open>defect_2 =
  \<lparr>qid = ''defect_2'',
   qtext = ''When did you first notice the defect?'',
   qtype = SINGLE_CHOICE,
   options = Some [''Upon delivery'',
     ''Within first week'',
     ''After 1-2 weeks'',
     ''After more than 2 weeks''],
   nextQuestionMap = None,
   validationRules = None\<rparr>\<close>

definition PRODUCT_DEFECT_TREE :: QuestionTree where
  "PRODUCT_DEFECT_TREE =
  \<lparr>category = PRODUCT_DEFECT,
   rootQuestionId = ''defect_1'',
   questions = [(''defect_1'', defect_1),
     (''defect_2'', defect_2)]\<rparr>"

definition account_1 :: Question where
  \<open>account_1 =
  \<lparr>qid = ''account_1'',
   qtext = ''What account issue are you experiencing?'',
   qtype = SINGLE_CHOICE,
   options = Some [''Forgot password'',
     ''Account locked'',
     ''Cannot receive verification email'',
     ''Username issues'',
     ''Other account issue''],
   nextQuestionMap = Some [(''Forgot password'', ''account_2''),
     (''Account locked'', ''account_3''),
     (''Cannot receive verification email'', ''account_4''),
     (''Username issues'', ''account_5''),
     (''Other account issue'', ''account_6'')],
   validationRules = None\<rparr>\<close>

definition account_2 :: Question where
  \<open>account_2 =
  \<lparr>qid = ''account_2'',
   qtext = ''Have you tried using the "Forgot Password" link on the login page?'',
   qtype = YES_NO,
   options = None,
   nextQuestionMap = None,
   validationRules = None\<rparr>\<close>

definition account_3 :: Question where
  \<open>account_3 =
  \<lparr>qid = ''account_3'',
   qtext = ''Do you know why your account was locked?'',
   qtype = YES_NO,
   options = None,
   nextQuestionMap = None,
   validationRules = None\<rparr>\<close>

definition account_4 :: Question where
  \<open>account_4 =
  \<lparr>qid = ''account_4'',
   qtext = ''Have you checked your spam/junk folder?'',
   qtype = YES_NO,
   options = None,
   nextQuestionMap = None,
   validationRules = None\<rparr>\<close>

definition account_5 :: Question where
  \<open>account_5 =
  \<lparr>qid = ''account_5'',
   qtext = ''Please describe the username issue'',
   qtype = TEXT_INPUT,
   options = None,
   nextQuestionMap = None,
   validationRules = None\<rparr>\<close>

definition account_6 :: Question where
  \<open>account_6 =
  \<lparr>qid = ''account_6'',
   qtext = ''Please describe your account issue'',
   qtype = TEXT_INPUT,
   options = None,
   nextQuestionMap = None,
   validationRules = Some [\<lparr>rtype = Required, rvalue = None, errorMessage = ''Please describe the issue''\<rparr>]\<rparr>\<close>

definition ACCOUNT_ACCESS_TREE :: QuestionTree where
  "ACCOUNT_ACCESS_TREE =
  \<lparr>category = ACCOUNT_ACCESS,
   rootQuestionId = ''account_1'',
   questions = [(''account_1'', account_1),
     (''account_2'', account_2),
     (''account_3'', account_3),
     (''account_4'', account_4),
     (''account_5'', account_5),
     (''account_6'', account_6)]\<rparr>"

definition billing_1 :: Question where
  \<open>billing_1 =
  \<lparr>qid = ''billing_1'',
   qtext = ''What billing information do you need?'',
   qtype = SINGLE_CHOICE,
   options = Some [''Invoice copy'',
     ''Billing statement'',
     ''Charge details'',
     ''Other''],
   nextQuestionMap = None,
   validationRules = None\<rparr>\<close>

definition BILLING_INQUIRY_TREE :: QuestionTree where
  "BILLING_INQUIRY_TREE =
  \<lparr>category = BILLING_INQUIRY,
   rootQuestionId = ''billing_1'',
   questions = [(''billing_1'', billing_1)]\<rparr>"

definition cancel_1 :: Question where
  \<open>cancel_1 =
  \<lparr>qid = ''cancel_1'',
   qtext = ''Has your order already shipped?'',
   qtype = YES_NO,
   options = None,
   nextQuestionMap = Some [(''yes'', ''cancel_2''),
     (''no'', ''cancel_3'')],
   validationRules = None\<rparr>\<close>

definition cancel_2 :: Question where
  \<open>cancel_2 =
  \<lparr>qid = ''cancel_2'',
   qtext = ''Since your order has shipped, would you like to refuse delivery or return it after receiving?'',
   qtype = SINGLE_CHOICE,
   options = Some [''Refuse delivery'',
     ''Return after receiving'',
     ''Keep the order''],
   nextQuestionMap = None,
   validationRules = None\<rparr>\<close>

definition cancel_3 :: Question where
  \<open>cancel_3 =
  \<lparr>qid = ''cancel_3'',
   qtext = ''Your order can be cancelled. Would you like to proceed with cancellation?'',
   qtype = YES_NO,
   options = None,
   nextQuestionMap = None,
   validationRules = None\<rparr>\<close>

definition CANCELLATION_TREE :: QuestionTree where
  "CANCELLATION_TREE =
  \<lparr>category = CANCELLATION,
   rootQuestionId = ''cancel_1'',
   questions = [(''cancel_1'', cancel_1),
     (''cancel_2'', cancel_2),
     (''cancel_3'', cancel_3)]\<rparr>"

definition other_1 :: Question where
  \<open>other_1 =
  \<lparr>qid = ''other_1'',
   qtext = ''Please describe your issue in detail'',
   qtype = TEXT_INPUT,
   options = None,
   nextQuestionMap = None,
   validationRules = Some [\<lparr>rtype = Required, rvalue = None, errorMessage = ''Please describe your issue''\<rparr>,
     \<lparr>rtype = MinLength, rvalue = Some (VNumber 20), errorMessage = ''Please provide more details (at least 20 characters)''\<rparr>]\<rparr>\<close>

definition OTHER_TREE :: QuestionTree where
  "OTHER_TREE =
  \<lparr>category = OTHER,
   rootQuestionId = ''other_1'',
   questions = [(''other_1'', other_1)]\<rparr>"

text \<open>\<open>QUESTION_TREES\<close>: one tree per category.\<close>

fun QUESTION_TREES :: "IssueCategory \<Rightarrow> QuestionTree" where
  "QUESTION_TREES ORDER_STATUS = ORDER_STATUS_TREE"
| "QUESTION_TREES DELIVERY_PROBLEM = DELIVERY_PROBLEM_TREE"
| "QUESTION_TREES PAYMENT_ISSUE = PAYMENT_ISSUE_TREE"
| "QUESTION_TREES REFUND_REQUEST = REFUND_REQUEST_TREE"
| "QUESTION_TREES PRODUCT_DEFECT = PRODUCT_DEFECT_TREE"
| "QUESTION_TREES ACCOUNT_ACCESS = ACCOUNT_ACCESS_TREE"
| "QUESTION_TREES BILLING_INQUIRY = BILLING_INQUIRY_TREE"
| "QUESTION_TREES CANCELLATION = CANCELLATION_TREE"
| "QUESTION_TREES OTHER = OTHER_TREE"

definition getQuestionTree :: "IssueCategory \<Rightarrow> QuestionTree" where
  "getQuestionTree category' = QUESTION_TREES category'"

text \<open>
  \<open>getQuestion\<close>: \<open>tree.questions[questionId]\<close>, a declared question or an inherited
  member of the object \<open>questions\<close>.
\<close>

definition getQuestion :: "IssueCategory \<Rightarrow> string \<Rightarrow> Question Property option" where
  "getQuestion category' questionId' =
     (let tree = QUESTION_TREES category'
      in getProperty (map_of (questions tree)) questionId')"

text \<open>
  \<open>getNextQuestionId\<close>.  An inherited member found in place of a question has no
  property \<open>nextQuestionMap\<close>.  The result \<open>question.nextQuestionMap[answer]\<close> is the
  declared next id, or the inherited member when the answer names one.
\<close>

definition getNextQuestionId ::
  "IssueCategory \<Rightarrow> string \<Rightarrow> string \<Rightarrow> string Property option" where
  "getNextQuestionId category' currentQuestionId answer =
     (case getQuestion category' currentQuestionId of
        None \<Rightarrow> None
      | Some (Inherited k) \<Rightarrow> None
      | Some (Own question) \<Rightarrow>
          (case nextQuestionMap question of
             None \<Rightarrow> None
           | Some m \<Rightarrow> getProperty (map_of m) answer))"

text \<open>
  The values visited when the answers \<open>as\<close> are given one after the other, starting at
  the value \<open>v\<close>: each answer is passed to \<open>getNextQuestionId\<close> together with the
  current value, used as a property key, and the walk stops at the first \<open>undefined\<close>
  (or when the answers run out).
\<close>

fun visited :: "IssueCategory \<Rightarrow> string Property \<Rightarrow> string list \<Rightarrow> string Property list" where
  "visited c v [] = [v]"
| "visited c v (a # as) =
     (case getNextQuestionId c (toPropertyKey v) a of
        None \<Rightarrow> [v]
      | Some v' \<Rightarrow> v # visited c v' as)"

text \<open>
  The number of questions on the longest path of declared edges that starts at \<open>q\<close>,
  explored to \<open>n\<close> questions.  A question without \<open>nextQuestionMap\<close>, and an id the
  tree does not declare, is the end of a path.
\<close>

fun longestFrom :: "nat \<Rightarrow> QuestionTree \<Rightarrow> string \<Rightarrow> nat" where
  "longestFrom 0 t q = 0"
| "longestFrom (Suc n) t q =
     (case map_of (questions t) q of
        None \<Rightarrow> 1
      | Some question \<Rightarrow>
          (case nextQuestionMap question of
             None \<Rightarrow> 1
           | Some m \<Rightarrow> Suc (fold max (map (\<lambda>e. longestFrom n t (snd e)) m) 0)))"

text \<open>
  The length of the longest root-to-leaf path of a category's tree.  A path without a
  repeated question has at most as many questions as the tree declares, so exploring
  one question further than that loses no path of an acyclic tree.
\<close>

definition treeDepth :: "IssueCategory \<Rightarrow> nat" where
  "treeDepth c =
     (let t = QUESTION_TREES c
      in longestFrom (Suc (length (questions t))) t (rootQuestionId t))"

section \<open>Resolution paths (config/resolutionPaths)\<close>

definition order_status_found :: ResolutionPath where
  \<open>order_status_found =
  \<lparr>pid = ''order_status_found'',
   pcategory = ORDER_STATUS,
   ptype = INFORMATION_PROVIDED,
   conditions = [\<lparr>questionId = ''order_status_2'', expectedAnswer = ExpString '''', operator = Contains\<rparr>],
   steps = None,
   escalationReason = None,
   estimatedTime = Some ''Immediate'',
   requiresData = Some [''orderId'']\<rparr>\<close>

definition order_status_email_lookup :: ResolutionPath where
  \<open>order_status_email_lookup =
  \<lparr>pid = ''order_status_email_lookup'',
   pcategory = ORDER_STATUS,
   ptype = INFORMATION_PROVIDED,
   conditions = [\<lparr>questionId = ''order_status_3'', expectedAnswer = ExpString '''', operator = Contains\<rparr>],
   steps = None,
   escalationReason = None,
   estimatedTime = Some ''Immediate'',
   requiresData = Some [''email'']\<rparr>\<close>

definition ORDER_STATUS_RESOLUTIONS :: "ResolutionPath list" where
  "ORDER_STATUS_RESOLUTIONS =
    [order_status_found,
     order_status_email_lookup]"

definition delivery_delayed_minor :: ResolutionPath where
  \<open>delivery_delayed_minor =
  \<lparr>pid = ''delivery_delayed_minor'',
   pcategory = DELIVERY_PROBLEM,
   ptype = INFORMATION_PROVIDED,
   conditions = [\<lparr>questionId = ''delivery_1'', expectedAnswer = ExpString ''Package is delayed'', operator = Equals\<rparr>,
     \<lparr>questionId = ''delivery_2'', expectedAnswer = ExpString ''1-2 days'', operator = Equals\<rparr>],
   steps = Some [''Check tracking information for latest updates'',
     ''Delivery delays of 1-2 days are common due to weather or high volume'',
     ''Your package should arrive within the next 24-48 hours''],
   escalationReason = None,
   estimatedTime = Some ''24-48 hours'',
   requiresData = None\<rparr>\<close>

definition delivery_delayed_major :: ResolutionPath where
  \<open>delivery_delayed_major =
  \<lparr>pid = ''delivery_delayed_major'',
   pcategory = DELIVERY_PROBLEM,
   ptype = ESCALATE_AGENT,
   conditions = [\<lparr>questionId = ''delivery_1'', expectedAnswer = ExpString ''Package is delayed'', operator = Equals\<rparr>,
     \<lparr>questionId = ''delivery_2'', expectedAnswer = ExpList [''3-5 days'', ''More than 5 days''], operator = In\<rparr>],
   steps = None,
   escalationReason = Some ''Significant delivery delay requires investigation'',
   estimatedTime = Some ''24 hours for agent response'',
   requiresData = None\<rparr>\<close>

definition delivery_wrong_address :: ResolutionPath where
  \<open>delivery_wrong_address =
  \<lparr>pid = ''delivery_wrong_address'',
   pcategory = DELIVERY_PROBLEM,
   ptype = ESCALATE_AGENT,
   conditions = [\<lparr>questionId = ''delivery_1'', expectedAnswer = ExpString ''Package delivered to wrong address'', operator = Equals\<rparr>],
   steps = None,
   escalationReason = Some ''Wrong address delivery requires carrier investigation'',
   estimatedTime = Some ''24-48 hours for resolution'',
   requiresData = None\<rparr>\<close>

definition delivery_damaged :: ResolutionPath where
  \<open>delivery_damaged =
  \<lparr>pid = ''delivery_damaged'',
   pcategory = DELIVERY_PROBLEM,
   ptype = ESCALATE_AGENT,
   conditions = [\<lparr>questionId = ''delivery_1'', expectedAnswer = ExpString ''Package is damaged'', operator = Equals\<rparr>],
   steps = None,
   escalationReason = Some ''Damaged package requires inspection and potential replacement'',
   estimatedTime = Some ''48 hours for resolution'',
   requiresData = None\<rparr>\<close>

definition delivery_lost :: ResolutionPath where
  \<open>delivery_lost =
  \<lparr>pid = ''delivery_lost'',
   pcategory = DELIVERY_PROBLEM,
   ptype = ESCALATE_SPECIALIST,
   conditions = [\<lparr>questionId = ''delivery_1'', expectedAnswer = ExpString ''Package is lost/missing'', operator = Equals\<rparr>],
   steps = None,
   escalationReason = Some ''Lost package requires carrier claim and replacement processing'',
   estimatedTime = Some ''3-5 business days'',
   requiresData = None\<rparr>\<close>

definition DELIVERY_PROBLEM_RESOLUTIONS :: "ResolutionPath list" where
  "DELIVERY_PROBLEM_RESOLUTIONS =
    [delivery_delayed_minor,
     delivery_delayed_major,
     delivery_wrong_address,
     delivery_damaged,
     delivery_lost]"

definition payment_declined_self_service :: ResolutionPath where
  \<open>payment_declined_self_service =
  \<lparr>pid = ''payment_declined_self_service'',
   pcategory = PAYMENT_ISSUE,
   ptype = SELF_SERVICE,
   conditions = [\<lparr>questionId = ''payment_1'', expectedAnswer = ExpString ''Payment was declined'', operator = Equals\<rparr>,
     \<lparr>questionId = ''payment_2'', expectedAnswer = ExpString ''no'', operator = Equals\<rparr>],
   steps = Some [''Verify your payment method has sufficient funds'',
     ''Check with your bank that the card is not blocked'',
     ''Ensure billing address matches your bank records'',
     ''Try a different payment method if issue persists''],
   escalationReason = None,
   estimatedTime = Some ''Immediate'',
   requiresData = None\<rparr>\<close>

definition payment_declined_escalate :: ResolutionPath where
  \<open>payment_declined_escalate =
  \<lparr>pid = ''payment_declined_escalate'',
   pcategory = PAYMENT_ISSUE,
   ptype = ESCALATE_AGENT,
   conditions = [\<lparr>questionId = ''payment_1'', expectedAnswer = ExpString ''Payment was declined'', operator = Equals\<rparr>,
     \<lparr>questionId = ''payment_2'', expectedAnswer = ExpString ''yes'', operator = Equals\<rparr>],
   steps = None,
   escalationReason = Some ''Payment declined despite sufficient funds - requires investigation'',
   estimatedTime = Some ''24 hours'',
   requiresData = None\<rparr>\<close>

definition payment_wrong_amount :: ResolutionPath where
  \<open>payment_wrong_amount =
  \<lparr>pid = ''payment_wrong_amount'',
   pcategory = PAYMENT_ISSUE,
   ptype = ESCALATE_AGENT,
   conditions = [\<lparr>questionId = ''payment_1'', expectedAnswer = ExpString ''Charged incorrect amount'', operator = Equals\<rparr>],
   steps = None,
   escalationReason = Some ''Incorrect charge amount requires billing review'',
   estimatedTime = Some ''24-48 hours'',
   requiresData = None\<rparr>\<close>

definition payment_multiple_charges :: ResolutionPath where
  \<open>payment_multiple_charges =
  \<lparr>pid = ''payment_multiple_charges'',
   pcategory = PAYMENT_ISSUE,
   ptype = ESCALATE_SPECIALIST,
   conditions = [\<lparr>questionId = ''payment_1'', expectedAnswer = ExpString ''Charged multiple times'', operator = Equals\<rparr>],
   steps = None,
   escalationReason = Some ''Multiple charges require immediate refund processing'',
   estimatedTime = Some ''24 hours for refund initiation'',
   requiresData = None\<rparr>\<close>

definition PAYMENT_ISSUE_RESOLUTIONS :: "ResolutionPath list" where
  "PAYMENT_ISSUE_RESOLUTIONS =
    [payment_declined_self_service,
     payment_declined_escalate,
     payment_wrong_amount,
     payment_multiple_charges]"

definition refund_defective_returned :: ResolutionPath where
  \<open>refund_defective_returned =
  \<lparr>pid = ''refund_defective_returned'',
   pcategory = REFUND_REQUEST,
   ptype = AUTOMATED_ACTION,
   conditions = [\<lparr>questionId = ''refund_1'', expectedAnswer = ExpString ''Product defective or damaged'', operator = Equals\<rparr>,
     \<lparr>questionId = ''refund_2'', expectedAnswer = ExpString ''yes'', operator = Equals\<rparr>],
   steps = Some [''Refund will be processed once return is received'',
     ''Expected processing time: 3-5 business days after receipt'',
     ''Refund will be issued to original payment method''],
   escalationReason = None,
   estimatedTime = Some ''3-5 business days after return receipt'',
   requiresData = Some [''returnTrackingNumber'']\<rparr>\<close>

definition refund_defective_not_returned :: ResolutionPath where
  \<open>refund_defective_not_returned =
  \<lparr>pid = ''refund_defective_not_returned'',
   pcategory = REFUND_REQUEST,
   ptype = SELF_SERVICE,
   conditions = [\<lparr>questionId = ''refund_1'', expectedAnswer = ExpString ''Product defective or damaged'', operator = Equals\<rparr>,
     \<lparr>questionId = ''refund_2'', expectedAnswer = ExpString ''no'', operator = Equals\<rparr>,
     \<lparr>questionId = ''refund_2b'', expectedAnswer = ExpString ''yes'', operator = Equals\<rparr>],
   steps = Some [''Print the prepaid return label from your order page'',
     ''Package the item securely in original packaging if possible'',
     ''Attach the label and drop off at any carrier location'',
     ''Refund will be processed 3-5 days after we receive the return''],
   escalationReason = None,
   estimatedTime = Some ''7-10 business days total'',
   requiresData = None\<rparr>\<close>

definition refund_changed_mind_eligible :: ResolutionPath where
  \<open>refund_changed_mind_eligible =
  \<lparr>pid = ''refund_changed_mind_eligible'',
   pcategory = REFUND_REQUEST,
   ptype = SELF_SERVICE,
   conditions = [\<lparr>questionId = ''refund_1'', expectedAnswer = ExpList [''Changed my mind'', ''Better price elsewhere''], operator = In\<rparr>,
     \<lparr>questionId = ''refund_4'', expectedAnswer = ExpString ''yes'', operator = Equals\<rparr>],
   steps = Some [''You can return the item within 30 days of purchase'',
     ''Item must be unused and in original packaging'',
     ''Print return label from your order page'',
     ''Refund will be processed minus original shipping cost''],
   escalationReason = None,
   estimatedTime = Some ''7-10 business days'',
   requiresData = None\<rparr>\<close>

definition refund_changed_mind_ineligible :: ResolutionPath where
  \<open>refund_changed_mind_ineligible =
  \<lparr>pid = ''refund_changed_mind_ineligible'',
   pcategory = REFUND_REQUEST,
   ptype = ESCALATE_AGENT,
   conditions = [\<lparr>questionId = ''refund_1'', expectedAnswer = ExpList [''Changed my mind'', ''Better price elsewhere''], operator = In\<rparr>,
     \<lparr>questionId = ''refund_4'', expectedAnswer = ExpString ''no'', operator = Equals\<rparr>],
   steps = None,
   escalationReason = Some ''Item not in original condition - requires case-by-case review'',
   estimatedTime = Some ''24-48 hours'',
   requiresData = None\<rparr>\<close>

definition REFUND_REQUEST_RESOLUTIONS :: "ResolutionPath list" where
  "REFUND_REQUEST_RESOLUTIONS =
    [refund_defective_returned,
     refund_defective_not_returned,
     refund_changed_mind_eligible,
     refund_changed_mind_ineligible]"

definition defect_immediate :: ResolutionPath where
  \<open>defect_immediate =
  \<lparr>pid = ''defect_immediate'',
   pcategory = PRODUCT_DEFECT,
   ptype = ESCALATE_AGENT,
   conditions = [\<lparr>questionId = ''defect_2'', expectedAnswer = ExpString ''Upon delivery'', operator = Equals\<rparr>],
   steps = None,
   escalationReason = Some ''Defect upon delivery - eligible for immediate replacement'',
   estimatedTime = Some ''24 hours for replacement processing'',
   requiresData = None\<rparr>\<close>

definition defect_warranty :: ResolutionPath where
  \<open>defect_warranty =
  \<lparr>pid = ''defect_warranty'',
   pcategory = PRODUCT_DEFECT,
   ptype = ESCALATE_AGENT,
   conditions = [\<lparr>questionId = ''defect_2'', expectedAnswer = ExpList [''Within first week'', ''After 1-2 weeks''], operator = In\<rparr>],
   steps = None,
   escalationReason = Some ''Product defect within warranty period'',
   estimatedTime = Some ''48 hours for resolution'',
   requiresData = None\<rparr>\<close>

definition defect_late :: ResolutionPath where
  \<open>defect_late =
  \<lparr>pid = ''defect_late'',
   pcategory = PRODUCT_DEFECT,
   ptype = ESCALATE_SPECIALIST,
   conditions = [\<lparr>questionId = ''defect_2'', expectedAnswer = ExpString ''After more than 2 weeks'', operator = Equals\<rparr>],
   steps = None,
   escalationReason = Some ''Late defect report - requires warranty verification'',
   estimatedTime = Some ''3-5 business days'',
   requiresData = None\<rparr>\<close>

definition PRODUCT_DEFECT_RESOLUTIONS :: "ResolutionPath list" where
  "PRODUCT_DEFECT_RESOLUTIONS =
    [defect_immediate,
     defect_warranty,
     defect_late]"

definition account_password_self_service :: ResolutionPath where
  \<open>account_password_self_service =
  \<lparr>pid = ''account_password_self_service'',
   pcategory = ACCOUNT_ACCESS,
   ptype = SELF_SERVICE,
   conditions = [\<lparr>questionId = ''account_1'', expectedAnswer = ExpString ''Forgot password'', operator = Equals\<rparr>,
     \<lparr>questionId = ''account_2'', expectedAnswer = ExpString ''no'', operator = Equals\<rparr>],
   steps = Some [''Go to the login page'',
     ''Click "Forgot Password" link'',
     ''Enter your email address'',
     ''Check your email for reset link (check spam folder)'',
     ''Follow the link to create a new password''],
   escalationReason = None,
   estimatedTime = Some ''Immediate'',
   requiresData = None\<rparr>\<close>

definition account_password_escalate :: ResolutionPath where
  \<open>account_password_escalate =
  \<lparr>pid = ''account_password_escalate'',
   pcategory = ACCOUNT_ACCESS,
   ptype = ESCALATE_AGENT,
   conditions = [\<lparr>questionId = ''account_1'', expectedAnswer = ExpString ''Forgot password'', operator = Equals\<rparr>,
     \<lparr>questionId = ''account_2'', expectedAnswer = ExpString ''yes'', operator = Equals\<rparr>],
   steps = None,
   escalationReason = Some ''Password reset not working - requires manual intervention'',
   estimatedTime = Some ''2-4 hours'',
   requiresData = None\<rparr>\<close>

definition account_locked :: ResolutionPath where
  \<open>account_locked =
  \<lparr>pid = ''account_locked'',
   pcategory = ACCOUNT_ACCESS,
   ptype = ESCALATE_AGENT,
   conditions = [\<lparr>questionId = ''account_1'', expectedAnswer = ExpString ''Account locked'', operator = Equals\<rparr>],
   steps = None,
   escalationReason = Some ''Account locked - requires security review and unlock'',
   estimatedTime = Some ''4-6 hours'',
   requiresData = None\<rparr>\<close>

definition account_email_issue :: ResolutionPath where
  \<open>account_email_issue =
  \<lparr>pid = ''account_email_issue'',
   pcategory = ACCOUNT_ACCESS,
   ptype = SELF_SERVICE,
   conditions = [\<lparr>questionId = ''account_1'', expectedAnswer = ExpString ''Cannot receive verification email'', operator = Equals\<rparr>,
     \<lparr>questionId = ''account_4'', expectedAnswer = ExpString ''no'', operator = Equals\<rparr>],
   steps = Some [''Check your spam/junk folder'',
     ''Add noreply@shopease.com to your contacts'',
     ''Check if your email provider is blocking our emails'',
     ''Try requesting a new verification email''],
   escalationReason = None,
   estimatedTime = Some ''Immediate'',
   requiresData = None\<rparr>\<close>

definition ACCOUNT_ACCESS_RESOLUTIONS :: "ResolutionPath list" where
  "ACCOUNT_ACCESS_RESOLUTIONS =
    [account_password_self_service,
     account_password_escalate,
     account_locked,
     account_email_issue]"

definition cancel_not_shipped :: ResolutionPath where
  \<open>cancel_not_shipped =
  \<lparr>pid = ''cancel_not_shipped'',
   pcategory = CANCELLATION,
   ptype = AUTOMATED_ACTION,
   conditions = [\<lparr>questionId = ''cancel_1'', expectedAnswer = ExpString ''no'', operator = Equals\<rparr>,
     \<lparr>questionId = ''cancel_3'', expectedAnswer = ExpString ''yes'', operator = Equals\<rparr>],
   steps = Some [''Your order has been cancelled'',
     ''Refund will be processed within 3-5 business days'',
     ''You will receive a confirmation email shortly''],
   escalationReason = None,
   estimatedTime = Some ''3-5 business days for refund'',
   requiresData = None\<rparr>\<close>

definition cancel_shipped_refuse :: ResolutionPath where
  \<open>cancel_shipped_refuse =
  \<lparr>pid = ''cancel_shipped_refuse'',
   pcategory = CANCELLATION,
   ptype = SELF_SERVICE,
   conditions = [\<lparr>questionId = ''cancel_1'', expectedAnswer = ExpString ''yes'', operator = Equals\<rparr>,
     \<lparr>questionId = ''cancel_2'', expectedAnswer = ExpString ''Refuse delivery'', operator = Equals\<rparr>],
   steps = Some [''When the carrier attempts delivery, refuse to accept the package'',
     ''The package will be returned to us automatically'',
     ''Refund will be processed once we receive the return'',
     ''Expected timeline: 7-10 business days''],
   escalationReason = None,
   estimatedTime = Some ''7-10 business days'',
   requiresData = None\<rparr>\<close>

definition cancel_shipped_return :: ResolutionPath where
  \<open>cancel_shipped_return =
  \<lparr>pid = ''cancel_shipped_return'',
   pcategory = CANCELLATION,
   ptype = SELF_SERVICE,
   conditions = [\<lparr>questionId = ''cancel_1'', expectedAnswer = ExpString ''yes'', operator = Equals\<rparr>,
     \<lparr>questionId = ''cancel_2'', expectedAnswer = ExpString ''Return after receiving'', operator = Equals\<rparr>],
   steps = Some [''Accept the delivery when it arrives'',
     ''Initiate a return from your order page'',
     ''Print the prepaid return label'',
     ''Ship the item back to us'',
     ''Refund will be processed after we receive it''],
   escalationReason = None,
   estimatedTime = Some ''10-14 business days'',
   requiresData = None\<rparr>\<close>

definition CANCELLATION_RESOLUTIONS :: "ResolutionPath list" where
  "CANCELLATION_RESOLUTIONS =
    [cancel_not_shipped,
     cancel_shipped_refuse,
     cancel_shipped_return]"

definition billing_invoice :: ResolutionPath where
  \<open>billing_invoice =
  \<lparr>pid = ''billing_invoice'',
   pcategory = BILLING_INQUIRY,
   ptype = SELF_SERVICE,
   conditions = [\<lparr>questionId = ''billing_1'', expectedAnswer = ExpString ''Invoice copy'', operator = Equals\<rparr>],
   steps = Some [''Log in to your account'',
     ''Go to Order History'',
     ''Click on the order you need an invoice for'',
     ''Click "Download Invoice" button'',
     ''Invoice will be downloaded as PDF''],
   escalationReason = None,
   estimatedTime = Some ''Immediate'',
   requiresData = None\<rparr>\<close>

definition billing_other :: ResolutionPath where
  \<open>billing_other =
  \<lparr>pid = ''billing_other'',
   pcategory = BILLING_INQUIRY,
   ptype = ESCALATE_AGENT,
   conditions = [\<lparr>questionId = ''billing_1'', expectedAnswer = ExpList [''Billing statement'', ''Charge details'', ''Other''], operator = In\<rparr>],
   steps = None,
   escalationReason = Some ''Billing inquiry requires detailed account review'',
   estimatedTime = Some ''24 hours'',
   requiresData = None\<rparr>\<close>

definition BILLING_INQUIRY_RESOLUTIONS :: "ResolutionPath list" where
  "BILLING_INQUIRY_RESOLUTIONS =
    [billing_invoice,
     billing_other]"

definition other_escalate :: ResolutionPath where
  \<open>other_escalate =
  \<lparr>pid = ''other_escalate'',
   pcategory = OTHER,
   ptype = ESCALATE_AGENT,
   conditions = [],
   steps = None,
   escalationReason = Some ''Issue does not fit predefined categories - requires human review'',
   estimatedTime = Some ''24-48 hours'',
   requiresData = None\<rparr>\<close>

definition OTHER_RESOLUTIONS :: "ResolutionPath list" where
  "OTHER_RESOLUTIONS =
    [other_escalate]"

fun RESOLUTION_PATHS :: "IssueCategory \<Rightarrow> ResolutionPath list" where
  "RESOLUTION_PATHS ORDER_STATUS = ORDER_STATUS_RESOLUTIONS"
| "RESOLUTION_PATHS DELIVERY_PROBLEM = DELIVERY_PROBLEM_RESOLUTIONS"
| "RESOLUTION_PATHS PAYMENT_ISSUE = PAYMENT_ISSUE_RESOLUTIONS"
| "RESOLUTION_PATHS REFUND_REQUEST = REFUND_REQUEST_RESOLUTIONS"
| "RESOLUTION_PATHS PRODUCT_DEFECT = PRODUCT_DEFECT_RESOLUTIONS"
| "RESOLUTION_PATHS ACCOUNT_ACCESS = ACCOUNT_ACCESS_RESOLUTIONS"
| "RESOLUTION_PATHS BILLING_INQUIRY = BILLING_INQUIRY_RESOLUTIONS"
| "RESOLUTION_PATHS CANCELLATION = CANCELLATION_RESOLUTIONS"
| "RESOLUTION_PATHS OTHER = OTHER_RESOLUTIONS"

text \<open>
  The loop of \<open>checkConditions\<close>.  \<open>!userAnswer\<close> holds for \<open>undefined\<close> and for the
  empty string; an inherited member is truthy.  \<open>userAnswer !== expectedAnswer\<close> holds
  whenever the expected answer is an array or the answer is an inherited member.  An
  inherited member has no method \<open>includes\<close>, so calling it throws a \<open>TypeError\<close>, and
  no array of strings includes it.  The \<open>greaterThan\<close> and \<open>lessThan\<close> cases only
  \<open>break\<close>.
\<close>

fun checkEach :: "ResolutionCondition list \<Rightarrow> (string \<rightharpoonup> string) \<Rightarrow> JsError + bool" where
  "checkEach [] answers = Inr True"
| "checkEach (condition # rest) answers =
     (case getProperty answers (questionId condition) of
        None \<Rightarrow> Inr False
      | Some (Own userAnswer) \<Rightarrow>
          if userAnswer = [] then Inr False
          else
            (case operator condition of
               Equals \<Rightarrow>
                 (if ExpString userAnswer \<noteq> expectedAnswer condition then Inr False
                  else checkEach rest answers)
             | Contains \<Rightarrow>
                 (case expectedAnswer condition of
                    ExpString e \<Rightarrow>
                      if \<not> String_includes userAnswer e then Inr False
                      else checkEach rest answers
                  | ExpList es \<Rightarrow> checkEach rest answers)
             | In \<Rightarrow>
                 (case expectedAnswer condition of
                    ExpList es \<Rightarrow>
                      if \<not> List.member es userAnswer then Inr False
                      else checkEach rest answers
                  | ExpString e \<Rightarrow> checkEach rest answers)
             | GreaterThan \<Rightarrow> checkEach rest answers
             | LessThan \<Rightarrow> checkEach rest answers)
      | Some (Inherited k) \<Rightarrow>
          (case operator condition of
             Equals \<Rightarrow> Inr False
           | Contains \<Rightarrow>
               (case expectedAnswer condition of
                  ExpString e \<Rightarrow> Inl TypeError
                | ExpList es \<Rightarrow> checkEach rest answers)
           | In \<Rightarrow>
               (case expectedAnswer condition of
                  ExpList es \<Rightarrow> Inr False
                | ExpString e \<Rightarrow> checkEach rest answers)
           | GreaterThan \<Rightarrow> checkEach rest answers
           | LessThan \<Rightarrow> checkEach rest answers))"

definition checkConditions ::
  "ResolutionCondition list \<Rightarrow> (string \<rightharpoonup> string) \<Rightarrow> JsError + bool" where
  "checkConditions conds answers =
     (if length conds = 0 then Inr True else checkEach conds answers)"

text \<open>
  \<open>findMatchingResolution\<close>: the \<open>for\<close> loop with its early return, then
  \<open>paths[paths.length - 1]\<close>, which is \<open>undefined\<close> for an empty array.  An exception
  of \<open>checkConditions\<close> leaves the function.
\<close>

fun firstMatch ::
  "ResolutionPath list \<Rightarrow> (string \<rightharpoonup> string) \<Rightarrow> JsError + ResolutionPath option" where
  "firstMatch [] answers = Inr None"
| "firstMatch (path # rest) answers =
     (case checkConditions (conditions path) answers of
        Inl e \<Rightarrow> Inl e
      | Inr matches \<Rightarrow> if matches then Inr (Some path) else firstMatch rest answers)"

definition findMatchingResolution ::
  "IssueCategory \<Rightarrow> (string \<rightharpoonup> string) \<Rightarrow> JsError + ResolutionPath option" where
  "findMatchingResolution category' answers =
     (let paths = RESOLUTION_PATHS category'
      in case firstMatch paths answers of
           Inl e \<Rightarrow> Inl e
         | Inr (Some path) \<Rightarrow> Inr (Some path)
         | Inr None \<Rightarrow> Inr (if paths = [] then None else Some (last paths)))"

section \<open>Resolution service (services/resolutionService)\<close>

text \<open>
  \<open>generateTicketNumber\<close>: \<open>isoNow\<close> is \<open>new Date().toISOString()\<close> and \<open>rnd\<close> is
  \<open>Math.floor(Math.random() * 10000)\<close>.
\<close>

definition generateTicketNumber :: "string \<Rightarrow> nat \<Rightarrow> string" where
  "generateTicketNumber isoNow rnd =
     (let dateStr = filter (\<lambda>c. c \<noteq> CHR ''-'') (take 10 isoNow);
          random = padStart 4 (CHR ''0'') (toDecimal rnd)
      in ''TKT-'' @ dateStr @ ''-'' @ random)"

text \<open>\<open>generateReferenceNumber\<close>: \<open>uuid\<close> is \<open>uuidv4()\<close>.\<close>

definition generateReferenceNumber :: "string \<Rightarrow> string" where
  "generateReferenceNumber uuid =
     ''REF-'' @ toUpperCase (take 8 (filter (\<lambda>c. c \<noteq> CHR ''-'') uuid))"

fun getTeamForPriority :: "Priority \<Rightarrow> string" where
  "getTeamForPriority urgent = ''Priority Support Team''"
| "getTeamForPriority high = ''Specialist Team''"
| "getTeamForPriority medium = ''Customer Support Team''"
| "getTeamForPriority low = ''General Support Team''"

definition createSelfServiceResolution :: "string list \<Rightarrow> Resolution" where
  "createSelfServiceResolution steps' =
     \<lparr>res_type = SELF_SERVICE,
      message = ''You can resolve this issue yourself by following these steps:'',
      res_steps = Some steps',
      escalationDetails = None,
      referenceNumber = None\<rparr>"

definition createAutomatedActionResolution :: "string \<Rightarrow> string list \<Rightarrow> string \<Rightarrow> Resolution" where
  "createAutomatedActionResolution uuid steps' estimatedTime' =
     \<lparr>res_type = AUTOMATED_ACTION,
      message = ''I'll take care of this for you. Here's what will happen:'',
      res_steps = Some steps',
      escalationDetails = None,
      referenceNumber = Some (generateReferenceNumber uuid)\<rparr>"

definition createInformationResolution :: "string list \<Rightarrow> (string \<rightharpoonup> string) \<Rightarrow> Resolution" where
  "createInformationResolution info answers =
     \<lparr>res_type = INFORMATION_PROVIDED,
      message = ''Here's the information you need:'',
      res_steps = Some info,
      escalationDetails = None,
      referenceNumber = None\<rparr>"

definition createEscalationResolution ::
  "string \<Rightarrow> nat \<Rightarrow> string \<Rightarrow> Priority \<Rightarrow> string \<Rightarrow> Resolution" where
  "createEscalationResolution isoNow rnd reason priority' estimatedTime' =
     (let ticketNumber' = generateTicketNumber isoNow rnd;
          escalationDetails' =
            \<lparr>team = getTeamForPriority priority',
             priority = priority',
             estimatedResponseTime = estimatedTime',
             ticketNumber = ticketNumber'\<rparr>
      in \<lparr>res_type =
             (if priority' = high \<or> priority' = urgent then ESCALATE_SPECIALIST
              else ESCALATE_AGENT),
           message =
             ''I've created a support ticket for you. Our team will help resolve this issue.'',
           res_steps = None,
           escalationDetails = Some escalationDetails',
           referenceNumber = Some ticketNumber'\<rparr>)"

text \<open>\<open>x || d\<close> on an optional string: the default replaces \<open>undefined\<close> and \<open>''\<close>.\<close>

definition orString :: "string option \<Rightarrow> string \<Rightarrow> string" where
  "orString x d = (case x of None \<Rightarrow> d | Some s \<Rightarrow> if s = [] then d else s)"

text \<open>\<open>x || []\<close> on an optional array: every array is truthy.\<close>

definition orList :: "string list option \<Rightarrow> string list" where
  "orList x = (case x of None \<Rightarrow> [] | Some xs \<Rightarrow> xs)"

text \<open>
  \<open>findResolution\<close>.  The inputs \<open>isoNow\<close>, \<open>rnd\<close> and \<open>uuid\<close> are what the clock, the
  random number generator and \<open>uuidv4\<close> return during the call.  The \<open>default\<close> case of
  the switch has no value of the closed enumeration \<open>ResolutionType\<close> left to handle.
\<close>

definition findResolution ::
  "string \<Rightarrow> nat \<Rightarrow> string \<Rightarrow> IssueCategory \<Rightarrow> (string \<rightharpoonup> string)
     \<Rightarrow> JsError + Resolution" where
  "findResolution isoNow rnd uuid category' answers =
     (case findMatchingResolution category' answers of
        Inl e \<Rightarrow> Inl e
      | Inr None \<Rightarrow>
          Inr (createEscalationResolution isoNow rnd ''No matching resolution path found''
                 medium ''24-48 hours'')
      | Inr (Some path) \<Rightarrow>
          Inr (case ptype path of
                 SELF_SERVICE \<Rightarrow> createSelfServiceResolution (orList (steps path))
               | AUTOMATED_ACTION \<Rightarrow>
                   createAutomatedActionResolution uuid (orList (steps path))
                     (orString (estimatedTime path) ''Processing'')
               | INFORMATION_PROVIDED \<Rightarrow>
                   createInformationResolution (orList (steps path)) answers
               | ESCALATE_AGENT \<Rightarrow>
                   createEscalationResolution isoNow rnd
                     (orString (escalationReason path) ''Requires agent assistance'')
                     medium (orString (estimatedTime path) ''24 hours'')
               | ESCALATE_SPECIALIST \<Rightarrow>
                   createEscalationResolution isoNow rnd
                     (orString (escalationReason path) ''Requires specialist team'')
                     high (orString (estimatedTime path) ''48 hours'')))"

section \<open>Conversation service (services/conversationService)\<close>

definition MAX_TEXT_LENGTH :: nat where
  "MAX_TEXT_LENGTH = 1000"

record ValidationResult =
  valid :: bool
  error :: "string option"

text \<open>\<open>getFirstQuestion\<close> throws when the tree does not declare its root: \<open>None\<close> here.\<close>

definition getFirstQuestion :: "IssueCategory \<Rightarrow> Question Property option" where
  "getFirstQuestion category' =
     (let tree = getQuestionTree category' in getQuestion category' (rootQuestionId tree))"

text \<open>
  \<open>getNextQuestion\<close>.  \<open>!nextQuestionId\<close> holds for \<open>undefined\<close> and for the empty
  string.
\<close>

definition getNextQuestion ::
  "IssueCategory \<Rightarrow> string \<Rightarrow> string \<Rightarrow> Question Property option" where
  "getNextQuestion category' currentQuestionId answer =
     (case getNextQuestionId category' currentQuestionId answer of
        None \<Rightarrow> None
      | Some nextQuestionId \<Rightarrow>
          if nextQuestionId = Own [] then None
          else getQuestion category' (toPropertyKey nextQuestionId))"

text \<open>\<open>!answer || answer.trim().length === 0\<close>.\<close>

definition isEmptyAnswer :: "string \<Rightarrow> bool" where
  "isEmptyAnswer answer = (answer = [] \<or> length (trim answer) = 0)"

text \<open>
  \<open>validateRule\<close>.  The first argument is the regular-expression engine of the
  platform: \<open>test p s\<close> is \<open>new RegExp(p).test(s)\<close>.  A rule whose value has the wrong
  type for its rule type checks nothing.
\<close>

definition validateRule ::
  "(string \<Rightarrow> string \<Rightarrow> bool) \<Rightarrow> ValidationRule \<Rightarrow> string \<Rightarrow> ValidationResult" where
  "validateRule test rule answer =
     (case rtype rule of
        Required \<Rightarrow>
          if isEmptyAnswer answer then \<lparr>valid = False, error = Some (errorMessage rule)\<rparr>
          else \<lparr>valid = True, error = None\<rparr>
      | Pattern \<Rightarrow>
          (case rvalue rule of
             Some (VString p) \<Rightarrow>
               if \<not> test p answer then \<lparr>valid = False, error = Some (errorMessage rule)\<rparr>
               else \<lparr>valid = True, error = None\<rparr>
           | _ \<Rightarrow> \<lparr>valid = True, error = None\<rparr>)
      | MinLength \<Rightarrow>
          (case rvalue rule of
             Some (VNumber n) \<Rightarrow>
               if real (length answer) < n then \<lparr>valid = False, error = Some (errorMessage rule)\<rparr>
               else \<lparr>valid = True, error = None\<rparr>
           | _ \<Rightarrow> \<lparr>valid = True, error = None\<rparr>)
      | MaxLength \<Rightarrow>
          (case rvalue rule of
             Some (VNumber n) \<Rightarrow>
               if real (length answer) > n then \<lparr>valid = False, error = Some (errorMessage rule)\<rparr>
               else \<lparr>valid = True, error = None\<rparr>
           | _ \<Rightarrow> \<lparr>valid = True, error = None\<rparr>)
      | Custom \<Rightarrow> \<lparr>valid = True, error = None\<rparr>)"

text \<open>The loop over the rules of \<open>validateAnswer\<close>, with its early return.\<close>

fun validateRules ::
  "(string \<Rightarrow> string \<Rightarrow> bool) \<Rightarrow> ValidationRule list \<Rightarrow> string \<Rightarrow> ValidationResult" where
  "validateRules test [] answer = \<lparr>valid = True, error = None\<rparr>"
| "validateRules test (rule # rest) answer =
     (let result = validateRule test rule answer
      in if \<not> valid result then result else validateRules test rest answer)"

definition validateAnswer ::
  "(string \<Rightarrow> string \<Rightarrow> bool) \<Rightarrow> Question \<Rightarrow> string \<Rightarrow> ValidationResult" where
  "validateAnswer test question answer =
     (if isEmptyAnswer answer then
        \<lparr>valid = False, error = Some ''Answer cannot be empty''\<rparr>
      else if length answer > MAX_TEXT_LENGTH then
        \<lparr>valid = False,
         error = Some (''Answer is too long (maximum '' @ toDecimal MAX_TEXT_LENGTH
                        @ '' characters)'')\<rparr>
      else
        (case validationRules question of
           None \<Rightarrow> \<lparr>valid = True, error = None\<rparr>
         | Some rules \<Rightarrow>
             if length rules = 0 then \<lparr>valid = True, error = None\<rparr>
             else validateRules test rules answer))"

definition parseUserAnswer :: "Question \<Rightarrow> string \<Rightarrow> string" where
  "parseUserAnswer question rawAnswer =
     (let trimmed = trim rawAnswer
      in case qtype question of
           YES_NO \<Rightarrow>
             (let lower = toLowerCase trimmed
              in if lower = ''yes'' \<or> lower = ''y'' \<or> lower = ''true'' then ''yes''
                 else if lower = ''no'' \<or> lower = ''n'' \<or> lower = ''false'' then ''no''
                 else trimmed)
         | SINGLE_CHOICE \<Rightarrow>
             (case options question of
                None \<Rightarrow> trimmed
              | Some opts \<Rightarrow>
                  if trimmed \<noteq> [] \<and> list_all isDigit trimmed then
                    (let index = int (parseInt trimmed) - 1
                     in if index \<ge> 0 \<and> index < int (length opts) then opts ! nat index
                        else trimmed)
                  else trimmed)
         | ORDER_ID \<Rightarrow> toUpperCase trimmed
         | _ \<Rightarrow> trimmed)"

section \<open>Session store (services/sessionService)\<close>

definition TIMEOUT_MS :: int where
  "TIMEOUT_MS = 30 * 60 * 1000"

definition MAX_MESSAGES :: nat where
  "MAX_MESSAGES = 100"

definition MAX_ACTIVE_SESSIONS :: nat where
  "MAX_ACTIVE_SESSIONS = 1000"

datatype Role = user | assistant | system

record Message =
  mid :: string
  role :: Role
  content :: string
  timestamp :: int
  metadata :: "(string \<times> string) list option"

record ConversationSession =
  sessionId :: string
  mode :: ConversationMode
  scategory :: "IssueCategory option"
  confidence :: "real option"
  answers :: "string \<rightharpoonup> string"
  currentQuestionId :: "string option"
  conversationHistory :: "Message list"
  createdAt :: int
  updatedAt :: int
  resolved :: bool
  resolution :: "Resolution option"

text \<open>
  \<open>Partial<ConversationSession>\<close>: each property may be absent (\<open>None\<close>); a present
  property carries its value, which for an optional property may be \<open>undefined\<close>.
\<close>

record SessionUpdates =
  u_sessionId :: "string option"
  u_mode :: "ConversationMode option"
  u_category :: "IssueCategory option option"
  u_confidence :: "real option option"
  u_answers :: "(string \<rightharpoonup> string) option"
  u_currentQuestionId :: "string option option"
  u_conversationHistory :: "Message list option"
  u_createdAt :: "int option"
  u_updatedAt :: "int option"
  u_resolved :: "bool option"
  u_resolution :: "Resolution option option"

text \<open>
  The store is a JavaScript \<open>Map\<close>: its entries in insertion order.  \<open>set\<close> on a key
  the map holds replaces the value where it stands; on a new key it appends.
\<close>

type_synonym SessionStore = "(string \<times> ConversationSession) list"

definition Map_get :: "SessionStore \<Rightarrow> string \<Rightarrow> ConversationSession option" where
  "Map_get sessions k = map_of sessions k"

fun Map_set :: "string \<Rightarrow> ConversationSession \<Rightarrow> SessionStore \<Rightarrow> SessionStore" where
  "Map_set k v [] = [(k, v)]"
| "Map_set k v ((k', v') # rest) =
     (if k' = k then (k, v) # rest else (k', v') # Map_set k v rest)"

definition Map_delete :: "string \<Rightarrow> SessionStore \<Rightarrow> SessionStore" where
  "Map_delete k sessions = filter (\<lambda>e. fst e \<noteq> k) sessions"

text \<open>
  \<open>createSession\<close>.  \<open>now\<close> is the clock, \<open>uuid\<close> and \<open>uuid'\<close> are the two values of
  \<open>uuidv4()\<close>.  \<open>Array.from(sessions.keys())[0]\<close> is the first key in insertion order.
  Every function of the store reads the clock as one instant per call.
\<close>

definition createSession ::
  "int \<Rightarrow> string \<Rightarrow> string \<Rightarrow> ConversationMode \<Rightarrow> string option \<Rightarrow> SessionStore
     \<Rightarrow> ConversationSession \<times> SessionStore" where
  "createSession now uuid uuid' mode' initialMessage sessions =
     (let session =
            \<lparr>sessionId = uuid,
             mode = mode',
             scategory = None,
             confidence = None,
             answers = Map.empty,
             currentQuestionId = None,
             conversationHistory =
               (case initialMessage of
                  None \<Rightarrow> []
                | Some m \<Rightarrow>
                    if m = [] then []
                    else [\<lparr>mid = uuid', role = user, content = m, timestamp = now,
                           metadata = None\<rparr>]),
             createdAt = now,
             updatedAt = now,
             resolved = False,
             resolution = None\<rparr>;
          sessions' =
            (if length sessions \<ge> MAX_ACTIVE_SESSIONS then
               (case sessions of
                  [] \<Rightarrow> sessions
                | (oldestSessionId, _) # _ \<Rightarrow> Map_delete oldestSessionId sessions)
             else sessions)
      in (session, Map_set uuid session sessions'))"

definition getSession ::
  "int \<Rightarrow> string \<Rightarrow> SessionStore \<Rightarrow> ConversationSession option \<times> SessionStore" where
  "getSession now sessionId' sessions =
     (case Map_get sessions sessionId' of
        None \<Rightarrow> (None, sessions)
      | Some session \<Rightarrow>
          (let elapsed = now - updatedAt session
           in if elapsed > TIMEOUT_MS then (None, Map_delete sessionId' sessions)
              else (Some session, sessions)))"

text \<open>The object spread \<open>{...session, ...updates}\<close>.\<close>

definition mergeUpdates :: "ConversationSession \<Rightarrow> SessionUpdates \<Rightarrow> ConversationSession" where
  "mergeUpdates session updates =
     \<lparr>sessionId = (case u_sessionId updates of None \<Rightarrow> sessionId session | Some v \<Rightarrow> v),
      mode = (case u_mode updates of None \<Rightarrow> mode session | Some v \<Rightarrow> v),
      scategory = (case u_category updates of None \<Rightarrow> scategory session | Some v \<Rightarrow> v),
      confidence = (case u_confidence updates of None \<Rightarrow> confidence session | Some v \<Rightarrow> v),
      answers = (case u_answers updates of None \<Rightarrow> answers session | Some v \<Rightarrow> v),
      currentQuestionId =
        (case u_currentQuestionId updates of None \<Rightarrow> currentQuestionId session | Some v \<Rightarrow> v),
      conversationHistory =
        (case u_conversationHistory updates of
           None \<Rightarrow> conversationHistory session | Some v \<Rightarrow> v),
      createdAt = (case u_createdAt updates of None \<Rightarrow> createdAt session | Some v \<Rightarrow> v),
      updatedAt = (case u_updatedAt updates of None \<Rightarrow> updatedAt session | Some v \<Rightarrow> v),
      resolved = (case u_resolved updates of None \<Rightarrow> resolved session | Some v \<Rightarrow> v),
      resolution = (case u_resolution updates of None \<Rightarrow> resolution session | Some v \<Rightarrow> v)\<rparr>"

definition updateSession ::
  "int \<Rightarrow> string \<Rightarrow> SessionUpdates \<Rightarrow> SessionStore
     \<Rightarrow> ConversationSession option \<times> SessionStore" where
  "updateSession now sessionId' updates sessions =
     (case getSession now sessionId' sessions of
        (None, sessions') \<Rightarrow> (None, sessions')
      | (Some session, sessions') \<Rightarrow>
          (let updatedSession = (mergeUpdates session updates)\<lparr>updatedAt := now\<rparr>
           in (Some updatedSession, Map_set sessionId' updatedSession sessions')))"

text \<open>\<open>xs.slice(-50)\<close>: the last 50 elements.\<close>

definition sliceLast :: "nat \<Rightarrow> 'a list \<Rightarrow> 'a list" where
  "sliceLast n xs = drop (length xs - n) xs"

definition addMessage ::
  "int \<Rightarrow> string \<Rightarrow> string \<Rightarrow> Role \<Rightarrow> string \<Rightarrow> (string \<times> string) list option \<Rightarrow> SessionStore
     \<Rightarrow> ConversationSession option \<times> SessionStore" where
  "addMessage now uuid sessionId' role' content' metadata' sessions =
     (case getSession now sessionId' sessions of
        (None, sessions') \<Rightarrow> (None, sessions')
      | (Some session, sessions') \<Rightarrow>
          (let history =
                 (if length (conversationHistory session) \<ge> MAX_MESSAGES
                  then sliceLast 50 (conversationHistory session)
                  else conversationHistory session);
               message' =
                 \<lparr>mid = uuid, role = role', content = content', timestamp = now,
                  metadata = metadata'\<rparr>;
               session' =
                 session\<lparr>conversationHistory := history @ [message'], updatedAt := now\<rparr>
           in (Some session', Map_set sessionId' session' sessions')))"

text \<open>
  \<open>addAnswer\<close>.  The assignment \<open>session.answers[questionId] = answer\<close> creates or
  replaces an own property, except for the key \<open>__proto__\<close>, where assigning a string
  changes nothing.
\<close>

definition addAnswer ::
  "int \<Rightarrow> string \<Rightarrow> string \<Rightarrow> string \<Rightarrow> SessionStore
     \<Rightarrow> ConversationSession option \<times> SessionStore" where
  "addAnswer now sessionId' questionId' answer sessions =
     (case getSession now sessionId' sessions of
        (None, sessions') \<Rightarrow> (None, sessions')
      | (Some session, sessions') \<Rightarrow>
          (let session' =
                 session\<lparr>answers :=
                           (if questionId' = ''__proto__'' then answers session
                            else (answers session)(questionId' \<mapsto> answer)),
                         updatedAt := now\<rparr>
           in (Some session', Map_set sessionId' session' sessions')))"

definition markSessionResolved ::
  "int \<Rightarrow> string \<Rightarrow> Resolution option \<Rightarrow> SessionStore
     \<Rightarrow> ConversationSession option \<times> SessionStore" where
  "markSessionResolved now sessionId' resolution' sessions =
     (case getSession now sessionId' sessions of
        (None, sessions') \<Rightarrow> (None, sessions')
      | (Some session, sessions') \<Rightarrow>
          (let session' =
                 session\<lparr>resolved := True, resolution := resolution', updatedAt := now\<rparr>
           in (Some session', Map_set sessionId' session' sessions')))"

definition deleteSession :: "string \<Rightarrow> SessionStore \<Rightarrow> bool \<times> SessionStore" where
  "deleteSession sessionId' sessions =
     (Map_get sessions sessionId' \<noteq> None, Map_delete sessionId' sessions)"

definition cleanupExpiredSessions :: "int \<Rightarrow> SessionStore \<Rightarrow> SessionStore" where
  "cleanupExpiredSessions now sessions =
     filter (\<lambda>e. \<not> (now - updatedAt (snd e) > TIMEOUT_MS)) sessions"

definition getSessionCount :: "SessionStore \<Rightarrow> nat" where
  "getSessionCount sessions = length sessions"


section \<open>Notions used to state the properties\<close>


text \<open>The validation rules a question declares, none when the property is absent.\<close>

definition declaredRules :: "Question \<Rightarrow> ValidationRule list" where
  "declaredRules q = (case validationRules q of None \<Rightarrow> [] | Some rules \<Rightarrow> rules)"

text \<open>
  \<open>c\<close> is the lower-case letter \<open>d\<close> or its capital, the code unit 32 below it; a case
  variant of a lower-case word has the same length and such a letter at every position.
\<close>

definition sameLetter :: "char \<Rightarrow> char \<Rightarrow> bool" where
  "sameLetter c d = (c = d \<or> (of_char c :: nat) + 32 = of_char d)"

definition caseVariant :: "string \<Rightarrow> string \<Rightarrow> bool" where
  "caseVariant s w = list_all2 sameLetter s w"

definition isLowerLetter :: "char \<Rightarrow> bool" where
  "isLowerLetter d = (let n = of_char d :: nat in 97 \<le> n \<and> n \<le> 122)"

definition yesWords :: "string list" where
  "yesWords = [''yes'', ''y'', ''true'']"

definition noWords :: "string list" where
  "noWords = [''no'', ''n'', ''false'']"

text \<open>The store after one \<open>getSession\<close> for the same id at each of the given times.\<close>

fun repeatGet :: "int list \<Rightarrow> string \<Rightarrow> SessionStore \<Rightarrow> SessionStore" where
  "repeatGet [] sid sessions = sessions"
| "repeatGet (t # ts) sid sessions = repeatGet ts sid (snd (getSession t sid sessions))"

subsection \<open>A store at capacity\<close>

text \<open>
  \<open>fillStore n\<close> is the store after \<open>n\<close> calls of \<open>createSession\<close> on the empty store,
  the call number \<open>i\<close> at time \<open>i\<close> with the id \<open>sessionKey i\<close>.  \<open>busyStore\<close> is the
  store filled to its capacity of 1000 sessions in which the session created first has
  then been updated, with an empty update, at time 5000.
\<close>

definition sessionKey :: "nat \<Rightarrow> string" where
  "sessionKey i = ''session-'' @ replicate i (CHR ''x'')"

primrec fillStore :: "nat \<Rightarrow> SessionStore" where
  "fillStore 0 = []"
| "fillStore (Suc n) =
     snd (createSession (int n) (sessionKey n) [] SYSTEM_INITIATED None (fillStore n))"

definition firstSession :: "nat \<Rightarrow> ConversationSession" where
  "firstSession i = fst (createSession (int i) (sessionKey i) [] SYSTEM_INITIATED None [])"

definition noUpdates :: SessionUpdates where
  "noUpdates =
     \<lparr>u_sessionId = None, u_mode = None, u_category = None, u_confidence = None,
      u_answers = None, u_currentQuestionId = None, u_conversationHistory = None,
      u_createdAt = None, u_updatedAt = None, u_resolved = None, u_resolution = None\<rparr>"

definition busyStore :: SessionStore where
  "busyStore = snd (updateSession 5000 (sessionKey 0) noUpdates (fillStore MAX_ACTIVE_SESSIONS))"

text \<open>The store that holds one session, created at time 0 with the id \<open>s1\<close>.\<close>

definition oneSession :: SessionStore where
  "oneSession = snd (createSession 0 ''s1'' [] SYSTEM_INITIATED None [])"

subsection \<open>Satisfied conditions\<close>

text \<open>
  A condition is satisfied, in the words of the specification: the answer recorded for
  its question exists and, for \<open>equals\<close>, is the expected string; for \<open>contains\<close>, has
  the expected string as a substring; for one-of, is a member of the expected set.  The
  reserved operators \<open>greaterThan\<close> and \<open>lessThan\<close> count as failing.  A path is
  satisfied when all its conditions are; it is accepted when, moreover, none of the
  answers its conditions read is the empty string.
\<close>

definition satisfied :: "ResolutionCondition \<Rightarrow> (string \<rightharpoonup> string) \<Rightarrow> bool" where
  "satisfied c ans =
     (case ans (questionId c) of
        None \<Rightarrow> False
      | Some a \<Rightarrow>
          (case operator c of
             Equals \<Rightarrow> expectedAnswer c = ExpString a
           | Contains \<Rightarrow>
               (case expectedAnswer c of ExpString e \<Rightarrow> sublist e a | ExpList es \<Rightarrow> False)
           | In \<Rightarrow>
               (case expectedAnswer c of ExpList es \<Rightarrow> a \<in> set es | ExpString e \<Rightarrow> False)
           | GreaterThan \<Rightarrow> False
           | LessThan \<Rightarrow> False))"

definition pathSatisfied :: "ResolutionPath \<Rightarrow> (string \<rightharpoonup> string) \<Rightarrow> bool" where
  "pathSatisfied p ans = list_all (\<lambda>c. satisfied c ans) (conditions p)"

definition pathAccepted :: "ResolutionPath \<Rightarrow> (string \<rightharpoonup> string) \<Rightarrow> bool" where
  "pathAccepted p ans =
     list_all (\<lambda>c. satisfied c ans \<and> ans (questionId c) \<noteq> Some []) (conditions p)"

text \<open>
  A condition with one of the two reserved operators, and a key whose value in the
  answers object is truthy: a recorded answer that is not the empty string or, when
  nothing is recorded under the key, a member inherited from \<open>Object.prototype\<close>.
\<close>

definition numericOperator :: "ResolutionCondition \<Rightarrow> bool" where
  "numericOperator c = (operator c = GreaterThan \<or> operator c = LessThan)"

definition truthyAnswer :: "(string \<rightharpoonup> string) \<Rightarrow> string \<Rightarrow> bool" where
  "truthyAnswer ans k =
     (case ans k of Some a \<Rightarrow> a \<noteq> [] | None \<Rightarrow> k \<in> set objectPrototypeKeys)"

text \<open>
  The conditions of the kind the configuration declares: the question id is no property
  name of \<open>Object.prototype\<close>, and the operator is \<open>equals\<close>, \<open>contains\<close> with a
  string or \<open>in\<close> with an array.
\<close>

definition plainCondition :: "ResolutionCondition \<Rightarrow> bool" where
  "plainCondition c =
     (\<not> List.member objectPrototypeKeys (questionId c)
      \<and> (case operator c of
            Equals \<Rightarrow> True
          | Contains \<Rightarrow> (case expectedAnswer c of ExpString e \<Rightarrow> True | ExpList es \<Rightarrow> False)
          | In \<Rightarrow> (case expectedAnswer c of ExpList es \<Rightarrow> True | ExpString e \<Rightarrow> False)
          | GreaterThan \<Rightarrow> False
          | LessThan \<Rightarrow> False))"

text \<open>
  The trees of the kind the configuration declares: no question id contains a space,
  and no question has an empty \<open>nextQuestionMap\<close>.
\<close>

definition plainTree :: "QuestionTree \<Rightarrow> bool" where
  "plainTree t =
     list_all (\<lambda>e. CHR '' '' \<notin> set (fst e) \<and> nextQuestionMap (snd e) \<noteq> Some [])
       (questions t)"

section \<open>Resolution matching\<close>

lemma checkConditions_eq_checkEach: "checkConditions cs a = checkEach cs a"
  by (cases cs) (simp_all add: checkConditions_def)

lemma startsWith_prefix: "startsWith hay needle = prefix needle hay"
  by (induction hay needle rule: startsWith.induct) auto

lemma String_includes_sublist: "String_includes hay needle = sublist needle hay"
  by (induction hay) (simp_all add: startsWith_prefix sublist_Cons_right)

lemma getProperty_own_key:
  "\<not> List.member objectPrototypeKeys k \<Longrightarrow> getProperty obj k = map_option Own (obj k)"
  by (simp add: getProperty_def split: option.splits)

lemma getProperty_truthy:
  "truthyAnswer ans k =
     (case getProperty ans k of
        None \<Rightarrow> False
      | Some (Own a) \<Rightarrow> a \<noteq> []
      | Some (Inherited k') \<Rightarrow> True)"
  by (simp add: truthyAnswer_def getProperty_def split: option.splits)

lemma checkEach_plain:
  "list_all plainCondition cs \<Longrightarrow>
   checkEach cs ans =
     Inr (list_all (\<lambda>c. satisfied c ans \<and> ans (questionId c) \<noteq> Some []) cs)"
proof (induction cs)
  case Nil
  show ?case by simp
next
  case (Cons c cs)
  then have c: "plainCondition c" and IH: "checkEach cs ans =
      Inr (list_all (\<lambda>c. satisfied c ans \<and> ans (questionId c) \<noteq> Some []) cs)"
    by simp_all
  from c have own: "getProperty ans (questionId c) = map_option Own (ans (questionId c))"
    by (simp add: plainCondition_def getProperty_own_key)
  show ?case
  proof (cases "ans (questionId c)")
    case None
    then show ?thesis by (simp add: own satisfied_def)
  next
    case (Some a)
    show ?thesis
    proof (cases "a = []")
      case True
      then show ?thesis by (simp add: own Some)
    next
      case False
      with c show ?thesis
        by (cases "operator c"; cases "expectedAnswer c")
           (auto simp: own Some IH satisfied_def plainCondition_def String_includes_sublist)
    qed
  qed
qed

lemma checkEach_append:
  "checkEach (xs @ ys) ans =
     (case checkEach xs ans of
        Inl e \<Rightarrow> Inl e
      | Inr b \<Rightarrow> if b then checkEach ys ans else Inr False)"
proof (induction xs)
  case Nil
  show ?case by simp
next
  case (Cons x xs)
  show ?case
    by (simp add: Cons split: option.splits Property.splits Operator.splits
        ExpectedAnswer.splits)
qed

lemma checkEach_numeric:
  "numericOperator c \<Longrightarrow>
   checkEach (c # rest) ans =
     (if truthyAnswer ans (questionId c) then checkEach rest ans else Inr False)"
  by (auto simp: numericOperator_def getProperty_truthy split: option.splits Property.splits)

lemma firstMatch_skip:
  "\<forall>p \<in> set before. checkConditions (conditions p) ans = Inr False \<Longrightarrow>
   firstMatch (before @ rest) ans = firstMatch rest ans"
  by (induction before) simp_all

lemma firstMatch_find:
  "\<forall>p \<in> set ps. checkConditions (conditions p) ans = Inr (P p) \<Longrightarrow>
   firstMatch ps ans = Inr (find P ps)"
  by (induction ps) simp_all

lemmas RESOLUTIONS_defs =
  ORDER_STATUS_RESOLUTIONS_def DELIVERY_PROBLEM_RESOLUTIONS_def
  PAYMENT_ISSUE_RESOLUTIONS_def REFUND_REQUEST_RESOLUTIONS_def
  PRODUCT_DEFECT_RESOLUTIONS_def ACCOUNT_ACCESS_RESOLUTIONS_def
  BILLING_INQUIRY_RESOLUTIONS_def CANCELLATION_RESOLUTIONS_def OTHER_RESOLUTIONS_def

lemmas PATH_defs =
  order_status_found_def
  order_status_email_lookup_def
  delivery_delayed_minor_def
  delivery_delayed_major_def
  delivery_wrong_address_def
  delivery_damaged_def
  delivery_lost_def
  payment_declined_self_service_def
  payment_declined_escalate_def
  payment_wrong_amount_def
  payment_multiple_charges_def
  refund_defective_returned_def
  refund_defective_not_returned_def
  refund_changed_mind_eligible_def
  refund_changed_mind_ineligible_def
  defect_immediate_def
  defect_warranty_def
  defect_late_def
  account_password_self_service_def
  account_password_escalate_def
  account_locked_def
  account_email_issue_def
  cancel_not_shipped_def
  cancel_shipped_refuse_def
  cancel_shipped_return_def
  billing_invoice_def
  billing_other_def
  other_escalate_def

lemma RESOLUTION_PATHS_nonempty: "RESOLUTION_PATHS c \<noteq> []"
  by (cases c) (simp_all add: RESOLUTIONS_defs)

text \<open>Every condition of every declared path is plain.\<close>

lemma declared_conditions_plain:
  "p \<in> set (RESOLUTION_PATHS c) \<Longrightarrow> list_all plainCondition (conditions p)"
proof (cases c)
  case ORDER_STATUS
  then show "p \<in> set (RESOLUTION_PATHS c) \<Longrightarrow> list_all plainCondition (conditions p)"
    by (auto simp: ORDER_STATUS_RESOLUTIONS_def PATH_defs plainCondition_def
        objectPrototypeKeys_def)
next
  case DELIVERY_PROBLEM
  then show "p \<in> set (RESOLUTION_PATHS c) \<Longrightarrow> list_all plainCondition (conditions p)"
    by (auto simp: DELIVERY_PROBLEM_RESOLUTIONS_def PATH_defs plainCondition_def
        objectPrototypeKeys_def)
next
  case PAYMENT_ISSUE
  then show "p \<in> set (RESOLUTION_PATHS c) \<Longrightarrow> list_all plainCondition (conditions p)"
    by (auto simp: PAYMENT_ISSUE_RESOLUTIONS_def PATH_defs plainCondition_def
        objectPrototypeKeys_def)
next
  case REFUND_REQUEST
  then show "p \<in> set (RESOLUTION_PATHS c) \<Longrightarrow> list_all plainCondition (conditions p)"
    by (auto simp: REFUND_REQUEST_RESOLUTIONS_def PATH_defs plainCondition_def
        objectPrototypeKeys_def)
next
  case PRODUCT_DEFECT
  then show "p \<in> set (RESOLUTION_PATHS c) \<Longrightarrow> list_all plainCondition (conditions p)"
    by (auto simp: PRODUCT_DEFECT_RESOLUTIONS_def PATH_defs plainCondition_def
        objectPrototypeKeys_def)
next
  case ACCOUNT_ACCESS
  then show "p \<in> set (RESOLUTION_PATHS c) \<Longrightarrow> list_all plainCondition (conditions p)"
    by (auto simp: ACCOUNT_ACCESS_RESOLUTIONS_def PATH_defs plainCondition_def
        objectPrototypeKeys_def)
next
  case BILLING_INQUIRY
  then show "p \<in> set (RESOLUTION_PATHS c) \<Longrightarrow> list_all plainCondition (conditions p)"
    by (auto simp: BILLING_INQUIRY_RESOLUTIONS_def PATH_defs plainCondition_def
        objectPrototypeKeys_def)
next
  case CANCELLATION
  then show "p \<in> set (RESOLUTION_PATHS c) \<Longrightarrow> list_all plainCondition (conditions p)"
    by (auto simp: CANCELLATION_RESOLUTIONS_def PATH_defs plainCondition_def
        objectPrototypeKeys_def)
next
  case OTHER
  then show "p \<in> set (RESOLUTION_PATHS c) \<Longrightarrow> list_all plainCondition (conditions p)"
    by (auto simp: OTHER_RESOLUTIONS_def PATH_defs plainCondition_def
        objectPrototypeKeys_def)
qed

lemma declared_checkConditions:
  "p \<in> set (RESOLUTION_PATHS c) \<Longrightarrow>
   checkConditions (conditions p) ans = Inr (pathAccepted p ans)"
  by (simp add: checkConditions_eq_checkEach checkEach_plain declared_conditions_plain
      pathAccepted_def)

text \<open>
  C1, as the claim states it, fails.  For \<open>ORDER_STATUS\<close> with the empty string
  recorded for \<open>order_status_2\<close>, the first declared path, \<open>order_status_found\<close>, has
  its one condition satisfied (the recorded answer exists and contains the expected empty
  string), but the path returned is \<open>order_status_email_lookup\<close>, another path, whose
  condition is not satisfied.
\<close>

theorem findMatchingResolution_empty_answer_counterexample:
  "RESOLUTION_PATHS ORDER_STATUS ! 0 = order_status_found
   \<and> pathSatisfied order_status_found [''order_status_2'' \<mapsto> '''']
   \<and> findMatchingResolution ORDER_STATUS [''order_status_2'' \<mapsto> '''']
       = Inr (Some order_status_email_lookup)
   \<and> pid order_status_email_lookup \<noteq> pid order_status_found
   \<and> \<not> pathSatisfied order_status_email_lookup [''order_status_2'' \<mapsto> '''']"
  by (simp add: ORDER_STATUS_RESOLUTIONS_def pathSatisfied_def satisfied_def
      findMatchingResolution_def checkConditions_def getProperty_def objectPrototypeKeys_def
      order_status_found_def order_status_email_lookup_def)

text \<open>
  C1, amended.  For every category and every answers map, \<open>findMatchingResolution\<close>
  returns, without an exception, a path of the category's list: the first path of the
  list, in declared order, that is accepted, which is to say all of whose conditions are
  satisfied by recorded answers none of which is the empty string, and the last path of
  the list when no path is accepted.  For every list of conditions of the kind the
  configuration declares, \<open>checkConditions\<close> decides exactly this acceptance.
\<close>

theorem findMatchingResolution_first_accepted_or_last:
  "(list_all plainCondition cs \<longrightarrow>
      checkConditions cs ans =
        Inr (list_all (\<lambda>c. satisfied c ans \<and> ans (questionId c) \<noteq> Some []) cs))
   \<and> (\<exists>path. findMatchingResolution c ans = Inr (Some path)
     \<and> path \<in> set (RESOLUTION_PATHS c)
     \<and> ((\<exists>i < length (RESOLUTION_PATHS c).
            path = RESOLUTION_PATHS c ! i
            \<and> pathAccepted (RESOLUTION_PATHS c ! i) ans
            \<and> (\<forall>j < i. \<not> pathAccepted (RESOLUTION_PATHS c ! j) ans))
        \<or> ((\<forall>p \<in> set (RESOLUTION_PATHS c). \<not> pathAccepted p ans)
            \<and> path = last (RESOLUTION_PATHS c))))"
proof (intro conjI impI)
  assume "list_all plainCondition cs"
  then show "checkConditions cs ans =
        Inr (list_all (\<lambda>c. satisfied c ans \<and> ans (questionId c) \<noteq> Some []) cs)"
    by (simp add: checkConditions_eq_checkEach checkEach_plain)
next
  have fm: "firstMatch (RESOLUTION_PATHS c) ans
      = Inr (find (\<lambda>p. pathAccepted p ans) (RESOLUTION_PATHS c))"
    by (rule firstMatch_find) (simp add: declared_checkConditions)
  show "\<exists>path. findMatchingResolution c ans = Inr (Some path)
     \<and> path \<in> set (RESOLUTION_PATHS c)
     \<and> ((\<exists>i < length (RESOLUTION_PATHS c).
            path = RESOLUTION_PATHS c ! i
            \<and> pathAccepted (RESOLUTION_PATHS c ! i) ans
            \<and> (\<forall>j < i. \<not> pathAccepted (RESOLUTION_PATHS c ! j) ans))
        \<or> ((\<forall>p \<in> set (RESOLUTION_PATHS c). \<not> pathAccepted p ans)
            \<and> path = last (RESOLUTION_PATHS c)))"
  proof (cases "find (\<lambda>p. pathAccepted p ans) (RESOLUTION_PATHS c)")
    case None
    then have "\<forall>p \<in> set (RESOLUTION_PATHS c). \<not> pathAccepted p ans"
      by (simp add: find_None_iff)
    moreover have "findMatchingResolution c ans = Inr (Some (last (RESOLUTION_PATHS c)))"
      using None RESOLUTION_PATHS_nonempty [of c] by (simp add: findMatchingResolution_def fm)
    moreover have "last (RESOLUTION_PATHS c) \<in> set (RESOLUTION_PATHS c)"
      using RESOLUTION_PATHS_nonempty [of c] by simp
    ultimately show ?thesis by blast
  next
    case (Some p)
    then obtain i where i: "i < length (RESOLUTION_PATHS c)" "RESOLUTION_PATHS c ! i = p"
      "pathAccepted (RESOLUTION_PATHS c ! i) ans"
      "\<forall>j < i. \<not> pathAccepted (RESOLUTION_PATHS c ! j) ans"
      by (auto simp: find_Some_iff)
    moreover have "findMatchingResolution c ans = Inr (Some p)"
      using Some by (simp add: findMatchingResolution_def fm)
    moreover have "p \<in> set (RESOLUTION_PATHS c)"
      using i(1,2) nth_mem by blast
    ultimately show ?thesis by blast
  qed
qed

text \<open>
  The theorem at the category \<open>PRODUCT_DEFECT\<close> with the answer "Upon delivery" to
  \<open>defect_2\<close>: the first path of the list is accepted, so the second disjunct is
  excluded and the index is 0.  The condition of \<open>order_status_found\<close> is plain; it
  is passed for a recorded order number and fails for the recorded empty string.
\<close>

theorem findMatchingResolution_first_accepted_or_last_witness:
  "findMatchingResolution PRODUCT_DEFECT [''defect_2'' \<mapsto> ''Upon delivery'']
     = Inr (Some defect_immediate)
   \<and> checkConditions (conditions order_status_found) [''order_status_2'' \<mapsto> ''ORD-12345'']
     = Inr True
   \<and> checkConditions (conditions order_status_found) [''order_status_2'' \<mapsto> []]
     = Inr False"
proof -
  let ?ans = "[''defect_2'' \<mapsto> ''Upon delivery'']"
  have first: "pathAccepted (RESOLUTION_PATHS PRODUCT_DEFECT ! 0) ?ans"
    by (simp add: PRODUCT_DEFECT_RESOLUTIONS_def defect_immediate_def pathAccepted_def
        satisfied_def)
  have mem: "RESOLUTION_PATHS PRODUCT_DEFECT ! 0 \<in> set (RESOLUTION_PATHS PRODUCT_DEFECT)"
    by (simp add: PRODUCT_DEFECT_RESOLUTIONS_def)
  obtain path where p: "findMatchingResolution PRODUCT_DEFECT ?ans = Inr (Some path)"
    and alt: "(\<exists>i < length (RESOLUTION_PATHS PRODUCT_DEFECT).
          path = RESOLUTION_PATHS PRODUCT_DEFECT ! i
          \<and> (\<forall>j < i. \<not> pathAccepted (RESOLUTION_PATHS PRODUCT_DEFECT ! j) ?ans))
        \<or> (\<forall>p \<in> set (RESOLUTION_PATHS PRODUCT_DEFECT). \<not> pathAccepted p ?ans)"
    using findMatchingResolution_first_accepted_or_last [of "[]" ?ans PRODUCT_DEFECT]
    by blast
  from alt first mem obtain i where i: "path = RESOLUTION_PATHS PRODUCT_DEFECT ! i"
    "\<forall>j < i. \<not> pathAccepted (RESOLUTION_PATHS PRODUCT_DEFECT ! j) ?ans"
    by blast
  from i(2) first have "i = 0"
    by (cases i) auto
  with i(1) p have 1: "findMatchingResolution PRODUCT_DEFECT ?ans = Inr (Some defect_immediate)"
    by (simp add: PRODUCT_DEFECT_RESOLUTIONS_def)
  have plain: "list_all plainCondition (conditions order_status_found)"
    by (simp add: order_status_found_def plainCondition_def objectPrototypeKeys_def)
  from findMatchingResolution_first_accepted_or_last
      [of "conditions order_status_found" "[''order_status_2'' \<mapsto> ''ORD-12345'']"] plain
  have 2: "checkConditions (conditions order_status_found)
      [''order_status_2'' \<mapsto> ''ORD-12345''] = Inr True"
    by (simp add: order_status_found_def satisfied_def)
  from findMatchingResolution_first_accepted_or_last
      [of "conditions order_status_found" "[''order_status_2'' \<mapsto> []]"] plain
  have 3: "checkConditions (conditions order_status_found)
      [''order_status_2'' \<mapsto> []] = Inr False"
    by (simp add: order_status_found_def satisfied_def)
  from 1 2 3 show ?thesis by simp
qed

text \<open>
  C3, as the claim states it, fails: a condition with the operator \<open>greaterThan\<close> is
  passed although the answer "2 times" is not greater than "3" in any sense, and a
  path gated by this condition alone is selected as the first match.
\<close>

theorem checkConditions_greaterThan_counterexample:
  "checkConditions
     [\<lparr>questionId = ''payment_4'', expectedAnswer = ExpString ''3'', operator = GreaterThan\<rparr>]
     [''payment_4'' \<mapsto> ''2 times'']
     = Inr True
   \<and> firstMatch
       [\<lparr>pid = ''payment_many'', pcategory = PAYMENT_ISSUE, ptype = ESCALATE_SPECIALIST,
         conditions =
           [\<lparr>questionId = ''payment_4'', expectedAnswer = ExpString ''3'',
             operator = GreaterThan\<rparr>],
         steps = None, escalationReason = None, estimatedTime = None, requiresData = None\<rparr>]
       [''payment_4'' \<mapsto> ''2 times'']
     \<noteq> Inr None"
  by (simp add: checkConditions_def getProperty_def)

text \<open>
  C3, amended.  A condition whose operator is \<open>greaterThan\<close> or \<open>lessThan\<close> is not
  compared with its expected answer.  Wherever it stands in the list of a path, it is
  passed exactly when the value the answers object has under its question id is truthy:
  then the list is decided as if the condition were not there; otherwise the list
  fails, unless a condition before it has already thrown.  A path all of whose
  conditions have these operators and read truthy values is accepted, and is the path
  selected when the paths before it are refused.  No declared path has a condition with
  one of these operators.
\<close>

theorem checkConditions_numeric_operator_unchecked:
  "(numericOperator c \<longrightarrow>
      checkConditions (before @ c # rest) ans =
        (if truthyAnswer ans (questionId c) then checkConditions (before @ rest) ans
         else (case checkConditions before ans of Inl e \<Rightarrow> Inl e | Inr b \<Rightarrow> Inr False)))
   \<and> ((\<forall>c' \<in> set (conditions p). numericOperator c' \<and> truthyAnswer ans (questionId c')) \<longrightarrow>
        checkConditions (conditions p) ans = Inr True
        \<and> ((\<forall>p' \<in> set earlier. checkConditions (conditions p') ans = Inr False) \<longrightarrow>
             firstMatch (earlier @ p # later) ans = Inr (Some p)))
   \<and> (p' \<in> set (RESOLUTION_PATHS cat) \<and> c'' \<in> set (conditions p') \<longrightarrow> \<not> numericOperator c'')"
proof (intro conjI impI)
  assume n: "numericOperator c"
  show "checkConditions (before @ c # rest) ans =
        (if truthyAnswer ans (questionId c) then checkConditions (before @ rest) ans
         else (case checkConditions before ans of Inl e \<Rightarrow> Inl e | Inr b \<Rightarrow> Inr False))"
    unfolding checkConditions_eq_checkEach checkEach_append [of before] checkEach_numeric [OF n]
    by (simp split: sum.splits)
next
  assume a: "\<forall>c' \<in> set (conditions p). numericOperator c' \<and> truthyAnswer ans (questionId c')"
  have all: "checkEach cs ans = Inr True"
    if "\<forall>c' \<in> set cs. numericOperator c' \<and> truthyAnswer ans (questionId c')" for cs
    using that
  proof (induction cs)
    case Nil
    show ?case by simp
  next
    case (Cons a cs)
    then have "numericOperator a" "truthyAnswer ans (questionId a)" "checkEach cs ans = Inr True"
      by simp_all
    then show ?case
      using checkEach_numeric [of a cs ans] by (simp del: checkEach.simps)
  qed
  show ok: "checkConditions (conditions p) ans = Inr True"
    using all [OF a] by (simp add: checkConditions_eq_checkEach)
  show "firstMatch (earlier @ p # later) ans = Inr (Some p)"
    if "\<forall>p' \<in> set earlier. checkConditions (conditions p') ans = Inr False"
    using firstMatch_skip [OF that, of "p # later"] ok by simp
next
  assume "p' \<in> set (RESOLUTION_PATHS cat) \<and> c'' \<in> set (conditions p')"
  then have "plainCondition c''"
    using declared_conditions_plain [of p' cat] by (auto simp: list_all_iff)
  then show "\<not> numericOperator c''"
    by (auto simp: plainCondition_def numericOperator_def)
qed

text \<open>
  The theorem at a path with the single condition \<open>payment_4 lessThan 3\<close>: the
  condition is passed for the answer "More than 3 times", and for no answer at all when
  the question id is \<open>constructor\<close>; it fails when nothing is recorded for
  \<open>payment_4\<close>; the path is selected for the answer "More than 3 times"; and the
  condition of the declared path \<open>delivery_lost\<close> has neither operator.
\<close>

theorem checkConditions_numeric_operator_unchecked_witness:
  "checkConditions
     [\<lparr>questionId = ''payment_4'', expectedAnswer = ExpString ''3'', operator = LessThan\<rparr>]
     [''payment_4'' \<mapsto> ''More than 3 times''] = Inr True
   \<and> checkConditions
     [\<lparr>questionId = ''payment_4'', expectedAnswer = ExpString ''3'', operator = LessThan\<rparr>]
     Map.empty = Inr False
   \<and> checkConditions
     [\<lparr>questionId = ''constructor'', expectedAnswer = ExpString ''3'', operator = LessThan\<rparr>]
     Map.empty = Inr True
   \<and> firstMatch
       [\<lparr>pid = ''payment_few'', pcategory = PAYMENT_ISSUE, ptype = ESCALATE_AGENT,
         conditions =
           [\<lparr>questionId = ''payment_4'', expectedAnswer = ExpString ''3'',
             operator = LessThan\<rparr>],
         steps = None, escalationReason = None, estimatedTime = None, requiresData = None\<rparr>]
       [''payment_4'' \<mapsto> ''More than 3 times'']
     = Inr (Some
         \<lparr>pid = ''payment_few'', pcategory = PAYMENT_ISSUE, ptype = ESCALATE_AGENT,
          conditions =
            [\<lparr>questionId = ''payment_4'', expectedAnswer = ExpString ''3'',
              operator = LessThan\<rparr>],
          steps = None, escalationReason = None, estimatedTime = None, requiresData = None\<rparr>)
   \<and> \<not> numericOperator (hd (conditions delivery_lost))"
proof -
  let ?c = "\<lparr>questionId = ''payment_4'', expectedAnswer = ExpString ''3'', operator = LessThan\<rparr>"
  let ?d = "\<lparr>questionId = ''constructor'', expectedAnswer = ExpString ''3'', operator = LessThan\<rparr>"
  let ?p = "\<lparr>pid = ''payment_few'', pcategory = PAYMENT_ISSUE, ptype = ESCALATE_AGENT,
         conditions = [?c],
         steps = None, escalationReason = None, estimatedTime = None, requiresData = None\<rparr>"
  let ?ans = "[''payment_4'' \<mapsto> ''More than 3 times'']"
  have n: "numericOperator ?c" "numericOperator ?d"
    by (simp_all add: numericOperator_def)
  have t: "truthyAnswer ?ans (questionId ?c)"
    "\<not> truthyAnswer Map.empty (questionId ?c)" "truthyAnswer Map.empty (questionId ?d)"
    by (simp_all add: truthyAnswer_def objectPrototypeKeys_def)
  have e: "checkConditions [] a = Inr True" for a
    by (simp add: checkConditions_def)
  from checkConditions_numeric_operator_unchecked [of ?c "[]" "[]" ?ans] n(1) t(1)
  have 1: "checkConditions [?c] ?ans = Inr True"
    by (simp add: e)
  from checkConditions_numeric_operator_unchecked [of ?c "[]" "[]" Map.empty] n(1) t(2)
  have 2: "checkConditions [?c] Map.empty = Inr False"
    by (simp add: e)
  from checkConditions_numeric_operator_unchecked [of ?d "[]" "[]" Map.empty] n(2) t(3)
  have 3: "checkConditions [?d] Map.empty = Inr True"
    by (simp add: e)
  have all: "\<forall>c' \<in> set (conditions ?p). numericOperator c' \<and> truthyAnswer ?ans (questionId c')"
    using n(1) t(1) by simp
  have none: "\<forall>p' \<in> set ([] :: ResolutionPath list). checkConditions (conditions p') ?ans = Inr False"
    by simp
  from checkConditions_numeric_operator_unchecked [of ?c "[]" "[]" ?ans ?p "[]" "[]"] all none
  have 4: "firstMatch ([] @ ?p # []) ?ans = Inr (Some ?p)"
    by blast
  have mem: "delivery_lost \<in> set (RESOLUTION_PATHS DELIVERY_PROBLEM)
      \<and> hd (conditions delivery_lost) \<in> set (conditions delivery_lost)"
    by (simp add: DELIVERY_PROBLEM_RESOLUTIONS_def delivery_lost_def)
  from checkConditions_numeric_operator_unchecked
      [of ?c "[]" "[]" ?ans ?p "[]" "[]" delivery_lost DELIVERY_PROBLEM
          "hd (conditions delivery_lost)"] mem
  have 5: "\<not> numericOperator (hd (conditions delivery_lost))"
    by blast
  from 1 2 3 4 5 show ?thesis by simp
qed

text \<open>
  C4.  The code does not satisfy the claim.  Only the list of \<open>OTHER\<close> ends in a path
  without conditions.  For \<open>ACCOUNT_ACCESS\<close> with the answers "Username issues" and
  a description, no path is accepted, and the path returned is the last one,
  \<open>account_email_issue\<close>, whose two conditions the answers do not satisfy.
\<close>

theorem last_path_unconditional_only_for_OTHER:
  "(conditions (last (RESOLUTION_PATHS c)) = []) = (c = OTHER)
   \<and> findMatchingResolution ACCOUNT_ACCESS
        [''account_1'' \<mapsto> ''Username issues'', ''account_5'' \<mapsto> ''cannot change it'']
      = Inr (Some account_email_issue)
   \<and> length (conditions account_email_issue) = 2
   \<and> checkConditions (conditions account_email_issue)
        [''account_1'' \<mapsto> ''Username issues'', ''account_5'' \<mapsto> ''cannot change it'']
      = Inr False"
proof (intro conjI)
  show "(conditions (last (RESOLUTION_PATHS c)) = []) = (c = OTHER)"
    by (cases c)
       (simp_all add: RESOLUTIONS_defs order_status_email_lookup_def delivery_lost_def
          payment_multiple_charges_def refund_changed_mind_ineligible_def defect_late_def
          account_email_issue_def billing_other_def cancel_shipped_return_def
          other_escalate_def)
  show "findMatchingResolution ACCOUNT_ACCESS
        [''account_1'' \<mapsto> ''Username issues'', ''account_5'' \<mapsto> ''cannot change it'']
      = Inr (Some account_email_issue)"
    by (simp add: findMatchingResolution_def ACCOUNT_ACCESS_RESOLUTIONS_def checkConditions_def
        getProperty_def account_password_self_service_def account_password_escalate_def
        account_locked_def account_email_issue_def)
  show "length (conditions account_email_issue) = 2"
    by (simp add: account_email_issue_def)
  show "checkConditions (conditions account_email_issue)
        [''account_1'' \<mapsto> ''Username issues'', ''account_5'' \<mapsto> ''cannot change it'']
      = Inr False"
    by (simp add: checkConditions_def getProperty_def account_email_issue_def)
qed

text \<open>
  C9 (scenario A).  With "Package is delayed" recorded for \<open>delivery_1\<close> and "More than
  5 days" for \<open>delivery_2\<close>, whatever else is recorded, the matcher selects
  \<open>delivery_delayed_major\<close> and \<open>findResolution\<close> returns, without an exception, a
  resolution of the kind \<open>ESCALATE_AGENT\<close>, for every ticket number minted.
\<close>

theorem scenario_A_delivery_delayed_major:
  "ans ''delivery_1'' = Some ''Package is delayed'' \<Longrightarrow>
   ans ''delivery_2'' = Some ''More than 5 days'' \<Longrightarrow>
   findMatchingResolution DELIVERY_PROBLEM ans = Inr (Some delivery_delayed_major)
   \<and> (\<exists>r. findResolution isoNow rnd uuid DELIVERY_PROBLEM ans = Inr r
          \<and> res_type r = ESCALATE_AGENT)"
  by (simp add: findMatchingResolution_def findResolution_def DELIVERY_PROBLEM_RESOLUTIONS_def
        checkConditions_def getProperty_def delivery_delayed_minor_def
        delivery_delayed_major_def createEscalationResolution_def Let_def)

theorem scenario_A_delivery_delayed_major_witness:
  "findMatchingResolution DELIVERY_PROBLEM
      [''delivery_1'' \<mapsto> ''Package is delayed'', ''delivery_2'' \<mapsto> ''More than 5 days'']
     = Inr (Some delivery_delayed_major)
   \<and> (\<exists>r. findResolution ''2025-01-02T03:04:05.000Z'' 42 ''3f2a9c1e-aaaa-4bbb-8ccc-123456789abc''
          DELIVERY_PROBLEM
          [''delivery_1'' \<mapsto> ''Package is delayed'', ''delivery_2'' \<mapsto> ''More than 5 days'']
        = Inr r \<and> res_type r = ESCALATE_AGENT)"
  by (rule scenario_A_delivery_delayed_major) simp_all

section \<open>Navigation of the question trees\<close>

lemma longestFrom_pos: "0 < longestFrom (Suc n) t q"
  by (simp split: option.splits)

lemma fold_max_start_le:
  fixes xs :: "nat list"
  shows "b \<le> fold max xs b"
proof (induction xs arbitrary: b)
  case Nil
  show ?case by simp
next
  case (Cons y ys)
  have "b \<le> max y b" by simp
  also have "\<dots> \<le> fold max ys (max y b)" by (rule Cons.IH)
  finally show ?case by simp
qed

lemma fold_max_ge:
  fixes xs :: "nat list"
  shows "x \<in> set xs \<Longrightarrow> x \<le> fold max xs b"
proof (induction xs arbitrary: b)
  case Nil
  then show ?case by simp
next
  case (Cons y ys)
  show ?case
  proof (cases "x = y")
    case True
    have "x \<le> max y b" using True by simp
    also have "\<dots> \<le> fold max ys (max y b)" by (rule fold_max_start_le)
    finally show ?thesis by simp
  next
    case False
    with Cons.prems have "x \<in> set ys" by simp
    then have "x \<le> fold max ys (max y b)" by (rule Cons.IH)
    then show ?thesis by simp
  qed
qed

text \<open>A step of the walk starts at a declared question and reads its \<open>nextQuestionMap\<close>.\<close>

lemma getNextQuestionId_edge:
  assumes "getNextQuestionId c k a = Some v'"
  obtains question m where "map_of (questions (QUESTION_TREES c)) k = Some question"
    and "nextQuestionMap question = Some m" and "getProperty (map_of m) a = Some v'"
  using assms
  by (auto simp: getNextQuestionId_def getQuestion_def getProperty_def
      split: option.splits Property.splits if_splits)

text \<open>
  The key an inherited member is converted to contains a space, so it is the id of no
  question of a plain tree, and the walk ends there.
\<close>

lemma toPropertyKey_Inherited_space: "CHR '' '' \<in> set (toPropertyKey (Inherited k))"
  by (simp add: toPropertyKey_def)

lemma plainTree_undeclared:
  assumes "plainTree t"
  shows "map_of (questions t) (toPropertyKey (Inherited k)) = None"
proof (cases "map_of (questions t) (toPropertyKey (Inherited k))")
  case None
  then show ?thesis .
next
  case (Some q)
  then have "(toPropertyKey (Inherited k), q) \<in> set (questions t)"
    by (rule map_of_SomeD)
  with assms have "CHR '' '' \<notin> set (toPropertyKey (Inherited k))"
    by (auto simp: plainTree_def list_all_iff)
  with toPropertyKey_Inherited_space [of k] show ?thesis by simp
qed

lemma plainTree_map_nonempty:
  assumes "plainTree t" "map_of (questions t) k = Some question"
    "nextQuestionMap question = Some m"
  shows "m \<noteq> []"
proof -
  from assms(2) have "(k, question) \<in> set (questions t)"
    by (rule map_of_SomeD)
  with assms(1) have "nextQuestionMap question \<noteq> Some []"
    by (auto simp: plainTree_def list_all_iff)
  with assms(3) show ?thesis by simp
qed

lemma child_lt:
  assumes stab: "longestFrom (Suc (Suc n)) (QUESTION_TREES c) (toPropertyKey v)
      = longestFrom (Suc n) (QUESTION_TREES c) (toPropertyKey v)"
    and plain: "plainTree (QUESTION_TREES c)"
    and nxt: "getNextQuestionId c (toPropertyKey v) a = Some v'"
  shows "longestFrom (Suc n) (QUESTION_TREES c) (toPropertyKey v')
      < longestFrom (Suc n) (QUESTION_TREES c) (toPropertyKey v)"
proof -
  let ?t = "QUESTION_TREES c"
  from nxt obtain question m where q: "map_of (questions ?t) (toPropertyKey v) = Some question"
    "nextQuestionMap question = Some m" "getProperty (map_of m) a = Some v'"
    by (rule getNextQuestionId_edge)
  have parent: "longestFrom (Suc (Suc n)) ?t (toPropertyKey v)
      = Suc (fold max (map (\<lambda>e. longestFrom (Suc n) ?t (snd e)) m) 0)"
    using q(1,2) by simp
  have "longestFrom (Suc n) ?t (toPropertyKey v')
      \<le> fold max (map (\<lambda>e. longestFrom (Suc n) ?t (snd e)) m) 0"
  proof (cases v')
    case (Own q')
    with q(3) have "map_of m a = Some q'"
      by (auto simp: getProperty_def split: option.splits if_splits)
    then have "(a, q') \<in> set m"
      by (rule map_of_SomeD)
    then have "longestFrom (Suc n) ?t q'
        \<in> set (map (\<lambda>e. longestFrom (Suc n) ?t (snd e)) m)"
      by (simp add: image_iff) (metis snd_conv)
    then show ?thesis
      unfolding Own toPropertyKey_def Property.case by (rule fold_max_ge)
  next
    case (Inherited k)
    have one: "longestFrom (Suc n) ?t (toPropertyKey (Inherited k)) = 1"
      using plainTree_undeclared [OF plain, of k] by simp
    from plainTree_map_nonempty [OF plain q(1,2)] obtain e m' where m: "m = e # m'"
      by (cases m) auto
    have "longestFrom (Suc n) ?t (snd e)
        \<in> set (map (\<lambda>e. longestFrom (Suc n) ?t (snd e)) m)"
      by (simp add: m)
    then have "longestFrom (Suc n) ?t (snd e)
        \<le> fold max (map (\<lambda>e. longestFrom (Suc n) ?t (snd e)) m) 0"
      by (rule fold_max_ge)
    with longestFrom_pos [of n ?t "snd e"] show ?thesis
      unfolding Inherited one by simp
  qed
  also have "\<dots> < longestFrom (Suc (Suc n)) ?t (toPropertyKey v)"
    unfolding parent by simp
  finally show ?thesis using stab by simp
qed

lemma visited_ranked:
  assumes stab: "\<And>q. longestFrom (Suc (Suc n)) (QUESTION_TREES c) q
      = longestFrom (Suc n) (QUESTION_TREES c) q"
    and plain: "plainTree (QUESTION_TREES c)"
  shows "length (visited c v as) \<le> longestFrom (Suc n) (QUESTION_TREES c) (toPropertyKey v)
     \<and> distinct (visited c v as)
     \<and> (\<forall>x \<in> set (visited c v as).
          longestFrom (Suc n) (QUESTION_TREES c) (toPropertyKey x)
            \<le> longestFrom (Suc n) (QUESTION_TREES c) (toPropertyKey v))"
proof (induction as arbitrary: v)
  case Nil
  show ?case using longestFrom_pos [of n "QUESTION_TREES c" "toPropertyKey v"] by simp
next
  case (Cons a as)
  let ?rank = "\<lambda>x. longestFrom (Suc n) (QUESTION_TREES c) (toPropertyKey x)"
  show ?case
  proof (cases "getNextQuestionId c (toPropertyKey v) a")
    case None
    then show ?thesis
      using longestFrom_pos [of n "QUESTION_TREES c" "toPropertyKey v"] by simp
  next
    case (Some v')
    have lt: "?rank v' < ?rank v"
      using stab plain Some by (rule child_lt)
    have IH: "length (visited c v' as) \<le> ?rank v'"
      "distinct (visited c v' as)"
      "\<forall>x \<in> set (visited c v' as). ?rank x \<le> ?rank v'"
      using Cons.IH [of v'] by blast+
    have w: "visited c v (a # as) = v # visited c v' as"
      using Some by simp
    have "v \<notin> set (visited c v' as)"
      using IH(3) lt by (meson leD)
    moreover have "\<forall>x \<in> set (visited c v' as). ?rank x \<le> ?rank v"
      using IH(3) lt by (meson le_trans less_imp_le)
    ultimately show ?thesis
      unfolding w using IH(1,2) lt by simp
  qed
qed

text \<open>
  Exploring one question further changes no value of \<open>longestFrom\<close>: the declared
  edges of every tree are acyclic, and the exploration in \<open>treeDepth\<close> is complete.
\<close>

lemmas ORDER_STATUS_TREE_defs =
  ORDER_STATUS_TREE_def
  order_status_1_def
  order_status_2_def
  order_status_3_def

lemmas DELIVERY_PROBLEM_TREE_defs =
  DELIVERY_PROBLEM_TREE_def
  delivery_1_def
  delivery_2_def
  delivery_3_def
  delivery_3a_def
  delivery_3b_def
  delivery_4_def
  delivery_5_def
  delivery_6_def

lemmas PAYMENT_ISSUE_TREE_defs =
  PAYMENT_ISSUE_TREE_def
  payment_1_def
  payment_2_def
  payment_3_def
  payment_4_def
  payment_5_def
  payment_6_def

lemmas REFUND_REQUEST_TREE_defs =
  REFUND_REQUEST_TREE_def
  refund_1_def
  refund_2_def
  refund_2a_def
  refund_2b_def
  refund_3_def
  refund_4_def
  refund_5_def

lemmas PRODUCT_DEFECT_TREE_defs =
  PRODUCT_DEFECT_TREE_def
  defect_1_def
  defect_2_def

lemmas ACCOUNT_ACCESS_TREE_defs =
  ACCOUNT_ACCESS_TREE_def
  account_1_def
  account_2_def
  account_3_def
  account_4_def
  account_5_def
  account_6_def

lemmas BILLING_INQUIRY_TREE_defs =
  BILLING_INQUIRY_TREE_def
  billing_1_def

lemmas CANCELLATION_TREE_defs =
  CANCELLATION_TREE_def
  cancel_1_def
  cancel_2_def
  cancel_3_def

lemmas OTHER_TREE_defs =
  OTHER_TREE_def
  other_1_def

lemma longestFrom_stable:
  "longestFrom (Suc (Suc (length (questions (QUESTION_TREES c))))) (QUESTION_TREES c) q
   = longestFrom (Suc (length (questions (QUESTION_TREES c)))) (QUESTION_TREES c) q"
proof (cases c)
  case ORDER_STATUS
  then show ?thesis by (simp add: ORDER_STATUS_TREE_defs)
next
  case DELIVERY_PROBLEM
  then show ?thesis by (simp add: DELIVERY_PROBLEM_TREE_defs)
next
  case PAYMENT_ISSUE
  then show ?thesis by (simp add: PAYMENT_ISSUE_TREE_defs)
next
  case REFUND_REQUEST
  then show ?thesis by (simp add: REFUND_REQUEST_TREE_defs)
next
  case PRODUCT_DEFECT
  then show ?thesis by (simp add: PRODUCT_DEFECT_TREE_defs)
next
  case ACCOUNT_ACCESS
  then show ?thesis by (simp add: ACCOUNT_ACCESS_TREE_defs)
next
  case BILLING_INQUIRY
  then show ?thesis by (simp add: BILLING_INQUIRY_TREE_defs)
next
  case CANCELLATION
  then show ?thesis by (simp add: CANCELLATION_TREE_defs)
next
  case OTHER
  then show ?thesis by (simp add: OTHER_TREE_defs)
qed

lemma treeDepth_values:
  "treeDepth ORDER_STATUS = 2" "treeDepth DELIVERY_PROBLEM = 3" "treeDepth PAYMENT_ISSUE = 2"
  "treeDepth REFUND_REQUEST = 3" "treeDepth PRODUCT_DEFECT = 1" "treeDepth ACCOUNT_ACCESS = 2"
  "treeDepth BILLING_INQUIRY = 1" "treeDepth CANCELLATION = 2" "treeDepth OTHER = 1"
  subgoal by (simp add: treeDepth_def ORDER_STATUS_TREE_defs)
  subgoal by (simp add: treeDepth_def DELIVERY_PROBLEM_TREE_defs)
  subgoal by (simp add: treeDepth_def PAYMENT_ISSUE_TREE_defs)
  subgoal by (simp add: treeDepth_def REFUND_REQUEST_TREE_defs)
  subgoal by (simp add: treeDepth_def PRODUCT_DEFECT_TREE_defs)
  subgoal by (simp add: treeDepth_def ACCOUNT_ACCESS_TREE_defs)
  subgoal by (simp add: treeDepth_def BILLING_INQUIRY_TREE_defs)
  subgoal by (simp add: treeDepth_def CANCELLATION_TREE_defs)
  subgoal by (simp add: treeDepth_def OTHER_TREE_defs)
  done

lemma QUESTION_TREES_plain: "plainTree (QUESTION_TREES c)"
proof (cases c)
  case ORDER_STATUS
  then show ?thesis by (simp add: plainTree_def ORDER_STATUS_TREE_defs)
next
  case DELIVERY_PROBLEM
  then show ?thesis by (simp add: plainTree_def DELIVERY_PROBLEM_TREE_defs)
next
  case PAYMENT_ISSUE
  then show ?thesis by (simp add: plainTree_def PAYMENT_ISSUE_TREE_defs)
next
  case REFUND_REQUEST
  then show ?thesis by (simp add: plainTree_def REFUND_REQUEST_TREE_defs)
next
  case PRODUCT_DEFECT
  then show ?thesis by (simp add: plainTree_def PRODUCT_DEFECT_TREE_defs)
next
  case ACCOUNT_ACCESS
  then show ?thesis by (simp add: plainTree_def ACCOUNT_ACCESS_TREE_defs)
next
  case BILLING_INQUIRY
  then show ?thesis by (simp add: plainTree_def BILLING_INQUIRY_TREE_defs)
next
  case CANCELLATION
  then show ?thesis by (simp add: plainTree_def CANCELLATION_TREE_defs)
next
  case OTHER
  then show ?thesis by (simp add: plainTree_def OTHER_TREE_defs)
qed

text \<open>
  The bound is attained: the delivery tree has a walk of three questions.  An answer
  that names a member of \<open>Object.prototype\<close> takes the walk to that member, where it
  ends.
\<close>

lemma treeDepth_attained:
  "visited DELIVERY_PROBLEM (Own (rootQuestionId (QUESTION_TREES DELIVERY_PROBLEM)))
     [''Package delivered to wrong address'', ''yes'', ''anything'']
     = [Own ''delivery_1'', Own ''delivery_3'', Own ''delivery_3a'']
   \<and> treeDepth DELIVERY_PROBLEM = 3"
  by (simp add: treeDepth_values getNextQuestionId_def getQuestion_def getProperty_def
      toPropertyKey_def objectPrototypeKeys_def DELIVERY_PROBLEM_TREE_defs)

lemma visited_inherited_member:
  "visited ORDER_STATUS (Own ''order_status_1'') [''constructor'', ''yes'']
     = [Own ''order_status_1'', Inherited ''constructor'']"
  by (simp add: getNextQuestionId_def getQuestion_def getProperty_def toPropertyKey_def
      objectPrototypeKeys_def ORDER_STATUS_TREE_defs)

text \<open>
  C2.  From the root of a category's tree, whatever answers are given and however many,
  the walk along \<open>getNextQuestionId\<close> visits at most \<open>treeDepth\<close> values, the number of
  questions on the longest root-to-leaf path of the tree, and visits no value twice.
  The values visited are the questions and, for an answer that names a member of
  \<open>Object.prototype\<close>, that member as the last value.
\<close>

theorem visited_bounded_by_treeDepth:
  "length (visited c (Own (rootQuestionId (QUESTION_TREES c))) as) \<le> treeDepth c
   \<and> distinct (visited c (Own (rootQuestionId (QUESTION_TREES c))) as)"
  using visited_ranked [of "length (questions (QUESTION_TREES c))" c
      "Own (rootQuestionId (QUESTION_TREES c))" as, OF longestFrom_stable QUESTION_TREES_plain]
  by (simp add: treeDepth_def Let_def toPropertyKey_def)

theorem visited_bounded_by_treeDepth_witness:
  "length (visited REFUND_REQUEST (Own ''refund_1'')
      [''Product defective or damaged'', ''no'', ''yes'', ''yes'', ''yes'']) \<le> 3
   \<and> length (visited ORDER_STATUS (Own ''order_status_1'') [''constructor'', ''yes'']) \<le> 2"
  using visited_bounded_by_treeDepth [of REFUND_REQUEST
      "[''Product defective or damaged'', ''no'', ''yes'', ''yes'', ''yes'']"]
    visited_bounded_by_treeDepth [of ORDER_STATUS "[''constructor'', ''yes'']"]
  by (simp add: treeDepth_values REFUND_REQUEST_TREE_def ORDER_STATUS_TREE_def)

section \<open>Answer validation\<close>










section \<open>Answer normalisation\<close>

lemma of_char_lowerChar:
  "(of_char (lowerChar c) :: nat) =
     (if (65 \<le> (of_char c :: nat) \<and> (of_char c :: nat) \<le> 90)
         \<or> (192 \<le> (of_char c :: nat) \<and> (of_char c :: nat) \<le> 222 \<and> (of_char c :: nat) \<noteq> 215)
      then of_char c + 32 else of_char c)"
  by (auto simp: lowerChar_def Let_def)

lemma lowerChar_eq_letter:
  assumes "isLowerLetter d"
  shows "(lowerChar c = d) = sameLetter c d"
proof -
  have "(lowerChar c = d) = ((of_char (lowerChar c) :: nat) = of_char d)"
    by simp
  also have "\<dots> = (of_char c = (of_char d :: nat) \<or> (of_char c :: nat) + 32 = of_char d)"
    using assms unfolding of_char_lowerChar isLowerLetter_def Let_def by auto
  finally show ?thesis
    by (simp add: sameLetter_def)
qed

lemma toLowerCase_eq_word:
  "list_all isLowerLetter w \<Longrightarrow> (toLowerCase t = w) = caseVariant t w"
proof (induction t arbitrary: w)
  case Nil
  show ?case by (auto simp: toLowerCase_def caseVariant_def)
next
  case (Cons c t)
  show ?case
  proof (cases w)
    case Nil
    then show ?thesis by (simp add: toLowerCase_def caseVariant_def)
  next
    case (Cons d w')
    with Cons.prems have d: "isLowerLetter d" and w': "list_all isLowerLetter w'"
      by simp_all
    from Cons.IH [OF w'] show ?thesis
      by (simp add: Cons toLowerCase_def caseVariant_def lowerChar_eq_letter [OF d])
  qed
qed

lemma words_lower:
  "list_all isLowerLetter ''yes''" "list_all isLowerLetter ''y''" "list_all isLowerLetter ''true''"
  "list_all isLowerLetter ''no''" "list_all isLowerLetter ''n''" "list_all isLowerLetter ''false''"
  by (simp_all add: isLowerLetter_def)

lemma variant_not_space:
  assumes "isLowerLetter d" "sameLetter c d"
  shows "\<not> isWhiteSpace c"
  using assms by (auto simp: isLowerLetter_def sameLetter_def isWhiteSpace_def Let_def)

lemma trim_no_outer_space:
  assumes "s \<noteq> []" "\<not> isWhiteSpace (hd s)" "\<not> isWhiteSpace (last s)"
  shows "trim s = s"
proof -
  have 1: "dropWhile isWhiteSpace s = s"
    using assms(1,2) by (cases s) simp_all
  have 2: "dropWhile isWhiteSpace (rev s) = rev s"
    using assms(1,3) by (cases "rev s") (simp_all add: last_rev [symmetric] hd_rev)
  show ?thesis by (simp add: trim_def 1 2)
qed

lemma caseVariant_trim:
  assumes "list_all isLowerLetter w" "caseVariant s w"
  shows "trim s = s"
proof (cases s)
  case Nil
  then show ?thesis by (simp add: trim_def)
next
  case (Cons c cs)
  have all: "\<forall>x \<in> set s. \<not> isWhiteSpace x"
  proof
    fix x assume "x \<in> set s"
    then obtain i where i: "i < length s" "s ! i = x"
      by (auto simp: in_set_conv_nth)
    from assms(2) have len: "length s = length w" and nth: "sameLetter (s ! i) (w ! i)"
      using i(1) by (auto simp: caseVariant_def list_all2_conv_all_nth)
    have "isLowerLetter (w ! i)"
      using assms(1) i(1) len by (simp add: list_all_length)
    then show "\<not> isWhiteSpace x"
      using nth i(2) variant_not_space by blast
  qed
  have "s \<noteq> []" using Cons by simp
  moreover have "\<not> isWhiteSpace (hd s)" using all Cons by simp
  moreover have "\<not> isWhiteSpace (last s)" using all \<open>s \<noteq> []\<close> last_in_set by blast
  ultimately show ?thesis by (rule trim_no_outer_space)
qed

lemma parseUserAnswer_YES_NO_cases:
  assumes "qtype q = YES_NO"
  shows "parseUserAnswer q raw =
     (if list_ex (caseVariant (trim raw)) yesWords then ''yes''
      else if list_ex (caseVariant (trim raw)) noWords then ''no''
      else trim raw)"
proof -
  note e = toLowerCase_eq_word [OF words_lower(1), of "trim raw"]
    toLowerCase_eq_word [OF words_lower(2), of "trim raw"]
    toLowerCase_eq_word [OF words_lower(3), of "trim raw"]
    toLowerCase_eq_word [OF words_lower(4), of "trim raw"]
    toLowerCase_eq_word [OF words_lower(5), of "trim raw"]
    toLowerCase_eq_word [OF words_lower(6), of "trim raw"]
  have "parseUserAnswer q raw =
     (if toLowerCase (trim raw) = ''yes'' \<or> toLowerCase (trim raw) = ''y''
          \<or> toLowerCase (trim raw) = ''true'' then ''yes''
      else if toLowerCase (trim raw) = ''no'' \<or> toLowerCase (trim raw) = ''n''
          \<or> toLowerCase (trim raw) = ''false'' then ''no''
      else trim raw)"
    using assms by (simp add: parseUserAnswer_def Let_def)
  also have "\<dots> =
     (if list_ex (caseVariant (trim raw)) yesWords then ''yes''
      else if list_ex (caseVariant (trim raw)) noWords then ''no''
      else trim raw)"
    unfolding e by (simp add: yesWords_def noWords_def)
  finally show ?thesis .
qed

lemma yes_not_no:
  assumes "list_ex (caseVariant t) yesWords"
  shows "\<not> list_ex (caseVariant t) noWords"
proof
  note e = toLowerCase_eq_word [OF words_lower(1), of t]
    toLowerCase_eq_word [OF words_lower(2), of t]
    toLowerCase_eq_word [OF words_lower(3), of t]
    toLowerCase_eq_word [OF words_lower(4), of t]
    toLowerCase_eq_word [OF words_lower(5), of t]
    toLowerCase_eq_word [OF words_lower(6), of t]
  assume "list_ex (caseVariant t) noWords"
  then have n: "toLowerCase t = ''no'' \<or> toLowerCase t = ''n'' \<or> toLowerCase t = ''false''"
    unfolding e by (simp add: noWords_def)
  from assms
  have y: "toLowerCase t = ''yes'' \<or> toLowerCase t = ''y'' \<or> toLowerCase t = ''true''"
    unfolding e by (simp add: yesWords_def)
  from n y show False by auto
qed

text \<open>
  C8.  For a yes/no question, \<open>parseUserAnswer\<close> trims the raw answer and returns
  "yes" when the trimmed answer is a case variant of "yes", "y" or "true", "no" when it
  is a case variant of "no", "n" or "false", and the trimmed answer itself otherwise.  A
  raw answer that is such a case variant has no outer white space and is its own trim.
  The raw answer "YES" is normalised to "yes", which passes \<open>validateAnswer\<close> for a
  yes/no question without validation rules, for every regular-expression engine.
\<close>

theorem yes_no_normalization:
  "qtype q = YES_NO \<Longrightarrow>
   (list_ex (caseVariant (trim raw)) yesWords \<longrightarrow> parseUserAnswer q raw = ''yes'')
   \<and> (list_ex (caseVariant (trim raw)) noWords \<longrightarrow> parseUserAnswer q raw = ''no'')
   \<and> (\<not> list_ex (caseVariant (trim raw)) yesWords \<and> \<not> list_ex (caseVariant (trim raw)) noWords
        \<longrightarrow> parseUserAnswer q raw = trim raw)
   \<and> (list_ex (caseVariant raw) (yesWords @ noWords) \<longrightarrow> trim raw = raw)
   \<and> parseUserAnswer q ''YES'' = ''yes''
   \<and> (declaredRules q = [] \<longrightarrow>
        validateAnswer test q (parseUserAnswer q ''YES'') = \<lparr>valid = True, error = None\<rparr>)"
proof (intro conjI impI)
  assume q: "qtype q = YES_NO"
  { assume "list_ex (caseVariant (trim raw)) yesWords"
    then show "parseUserAnswer q raw = ''yes''"
      using parseUserAnswer_YES_NO_cases [OF q, of raw] by simp }
  { assume "list_ex (caseVariant (trim raw)) noWords"
    then show "parseUserAnswer q raw = ''no''"
      using parseUserAnswer_YES_NO_cases [OF q, of raw] yes_not_no [of "trim raw"] by auto }
  { assume "\<not> list_ex (caseVariant (trim raw)) yesWords \<and> \<not> list_ex (caseVariant (trim raw)) noWords"
    then show "parseUserAnswer q raw = trim raw"
      using parseUserAnswer_YES_NO_cases [OF q, of raw] by simp }
  { assume "list_ex (caseVariant raw) (yesWords @ noWords)"
    then obtain w where w: "w \<in> set (yesWords @ noWords)" "caseVariant raw w"
      by (auto simp: list_ex_iff)
    have "\<forall>w \<in> set (yesWords @ noWords). list_all isLowerLetter w"
      by (simp add: yesWords_def noWords_def isLowerLetter_def)
    with w show "trim raw = raw"
      using caseVariant_trim by blast }
  have "trim ''YES'' = ''YES''"
    by (simp add: trim_def isWhiteSpace_def)
  then have "list_ex (caseVariant (trim ''YES'')) yesWords"
    by (simp add: yesWords_def caseVariant_def sameLetter_def)
  then have yes: "parseUserAnswer q ''YES'' = ''yes''"
    using parseUserAnswer_YES_NO_cases [OF q, of "''YES''"] by simp
  show "parseUserAnswer q ''YES'' = ''yes''" by (rule yes)
  { assume "declaredRules q = []"
    then show "validateAnswer test q (parseUserAnswer q ''YES'') = \<lparr>valid = True, error = None\<rparr>"
      unfolding yes
      by (auto simp: validateAnswer_def isEmptyAnswer_def trim_def isWhiteSpace_def
          MAX_TEXT_LENGTH_def declaredRules_def split: option.splits) }
qed

theorem yes_no_normalization_witness:
  "parseUserAnswer order_status_1 '' True '' = ''yes''
   \<and> parseUserAnswer order_status_1 ''N'' = ''no''
   \<and> parseUserAnswer order_status_1 '' maybe '' = ''maybe''
   \<and> validateAnswer RegExp_test order_status_1 (parseUserAnswer order_status_1 ''YES'')
       = \<lparr>valid = True, error = None\<rparr>"
proof -
  have q: "qtype order_status_1 = YES_NO" and r: "declaredRules order_status_1 = []"
    by (simp_all add: order_status_1_def declaredRules_def)
  have t: "trim '' True '' = ''True''" "trim ''N'' = ''N''" "trim '' maybe '' = ''maybe''"
    by (simp_all add: trim_def isWhiteSpace_def)
  have a: "list_ex (caseVariant (trim '' True '')) yesWords"
    by (simp add: t yesWords_def caseVariant_def sameLetter_def)
  have b: "list_ex (caseVariant (trim ''N'')) noWords"
    by (simp add: t noWords_def caseVariant_def sameLetter_def)
  have c: "\<not> list_ex (caseVariant (trim '' maybe '')) yesWords
      \<and> \<not> list_ex (caseVariant (trim '' maybe '')) noWords"
    by (simp add: t yesWords_def noWords_def caseVariant_def sameLetter_def)
  show ?thesis
    using yes_no_normalization [OF q, of "'' True ''" RegExp_test] yes_no_normalization [OF q, of "''N''" RegExp_test]
      yes_no_normalization [OF q, of "'' maybe ''" RegExp_test] a b c r
    by (simp add: t)
qed

section \<open>Session store\<close>

lemma Map_get_Map_set: "Map_get (Map_set k v st) k' = (if k' = k then Some v else Map_get st k')"
  by (induction st) (auto simp: Map_get_def)

lemma Map_get_Map_delete:
  "Map_get (Map_delete k st) k' = (if k' = k then None else Map_get st k')"
  by (induction st) (auto simp: Map_get_def Map_delete_def)

lemma Map_set_fresh: "k \<notin> fst ` set st \<Longrightarrow> Map_set k v st = st @ [(k, v)]"
  by (induction st) auto

lemma Map_set_keys: "Map_get st k = Some v' \<Longrightarrow> map fst (Map_set k v st) = map fst st"
  by (induction st) (auto simp: Map_get_def split: if_splits)

lemma Map_delete_absent: "Map_get st k = None \<Longrightarrow> Map_delete k st = st"
  by (induction st) (auto simp: Map_get_def Map_delete_def split: if_splits)

lemma snd_createSession_full:
  "MAX_ACTIVE_SESSIONS \<le> length st \<Longrightarrow>
   snd (createSession now u u' m i st)
     = Map_set u (fst (createSession now u u' m i st)) (Map_delete (fst (hd st)) st)"
  by (cases st) (auto simp: createSession_def Let_def MAX_ACTIVE_SESSIONS_def)

lemma snd_createSession_room:
  "length st < MAX_ACTIVE_SESSIONS \<Longrightarrow>
   snd (createSession now u u' m i st) = Map_set u (fst (createSession now u u' m i st)) st"
  by (simp add: createSession_def Let_def)

lemma getSession_cases:
  "getSession now sid st =
     (case Map_get st sid of
        None \<Rightarrow> (None, st)
      | Some s \<Rightarrow> if now - updatedAt s > TIMEOUT_MS then (None, Map_delete sid st)
                  else (Some s, st))"
  by (simp add: getSession_def Let_def split: option.splits)

lemma sessionKey_inj: "(sessionKey i = sessionKey j) = (i = j)"
proof
  assume "sessionKey i = sessionKey j"
  then have "length (sessionKey i) = length (sessionKey j)" by simp
  then show "i = j" by (simp add: sessionKey_def)
qed simp

lemma sessionKey_not_new: "sessionKey i \<noteq> ''new-session''"
  by (simp add: sessionKey_def)

lemma fst_createSession:
  "fst (createSession now u u' m i st) = fst (createSession now u u' m i [])"
  by (simp add: createSession_def Let_def)

lemma map_of_sessionKey:
  "map_of (map (\<lambda>i. (sessionKey i, g i)) xs) (sessionKey j)
     = (if j \<in> set xs then Some (g j) else None)"
  by (induction xs) (auto simp: sessionKey_inj)

lemma fillStore_eq:
  "n \<le> MAX_ACTIVE_SESSIONS \<Longrightarrow>
   fillStore n = map (\<lambda>i. (sessionKey i, firstSession i)) [0..<n]"
proof (induction n)
  case 0
  show ?case by simp
next
  case (Suc n)
  then have IH: "fillStore n = map (\<lambda>i. (sessionKey i, firstSession i)) [0..<n]"
    and n: "n < MAX_ACTIVE_SESSIONS"
    by simp_all
  have len: "length (fillStore n) < MAX_ACTIVE_SESSIONS"
    using n by (simp add: IH)
  have fresh: "sessionKey n \<notin> fst ` set (fillStore n)"
    by (auto simp: IH sessionKey_inj)
  have "fillStore (Suc n) = Map_set (sessionKey n) (firstSession n) (fillStore n)"
    using len fst_createSession [of "int n" "sessionKey n" "[]" SYSTEM_INITIATED None "fillStore n"]
    by (simp add: snd_createSession_room firstSession_def)
  also have "\<dots> = fillStore n @ [(sessionKey n, firstSession n)]"
    using fresh by (rule Map_set_fresh)
  finally show ?case by (simp add: IH)
qed

lemma mergeUpdates_noUpdates: "mergeUpdates s noUpdates = s"
  by (simp add: mergeUpdates_def noUpdates_def)

lemma updatedAt_firstSession: "updatedAt (firstSession i) = int i"
  by (simp add: firstSession_def createSession_def Let_def)

lemma busyStore_eq:
  "busyStore =
     (sessionKey 0, (firstSession 0)\<lparr>updatedAt := 5000\<rparr>)
       # map (\<lambda>i. (sessionKey i, firstSession i)) [Suc 0..<MAX_ACTIVE_SESSIONS]"
proof -
  have pos: "0 < MAX_ACTIVE_SESSIONS" by (simp add: MAX_ACTIVE_SESSIONS_def)
  have full: "fillStore MAX_ACTIVE_SESSIONS =
      (sessionKey 0, firstSession 0)
        # map (\<lambda>i. (sessionKey i, firstSession i)) [Suc 0..<MAX_ACTIVE_SESSIONS]"
    using pos by (simp add: fillStore_eq upt_conv_Cons)
  show ?thesis
    unfolding busyStore_def full
    by (simp add: updateSession_def getSession_cases Map_get_def updatedAt_firstSession
        TIMEOUT_MS_def mergeUpdates_noUpdates Let_def)
qed

lemma length_busyStore: "length busyStore = MAX_ACTIVE_SESSIONS"
  by (simp add: busyStore_eq MAX_ACTIVE_SESSIONS_def)

lemma hd_busyStore: "fst (hd busyStore) = sessionKey 0"
  by (simp add: busyStore_eq)

lemma Map_get_busyStore_0:
  "Map_get busyStore (sessionKey 0) = Some ((firstSession 0)\<lparr>updatedAt := 5000\<rparr>)"
  by (simp add: busyStore_eq Map_get_def)

lemma Map_get_busyStore_1:
  "Map_get busyStore (sessionKey (Suc 0)) = Some (firstSession (Suc 0))"
proof -
  have "Suc 0 \<in> set [Suc 0..<MAX_ACTIVE_SESSIONS]"
    by (simp add: MAX_ACTIVE_SESSIONS_def)
  then show ?thesis
    unfolding busyStore_eq Map_get_def
    using sessionKey_inj [of "Suc 0" 0] by (simp add: map_of_sessionKey)
qed

lemma Map_get_oneSession:
  "Map_get oneSession ''s1'' = Some (fst (createSession 0 ''s1'' [] SYSTEM_INITIATED None []))"
  by (simp add: oneSession_def createSession_def Let_def MAX_ACTIVE_SESSIONS_def Map_get_def)

lemma updatedAt_oneSession:
  "updatedAt (fst (createSession 0 ''s1'' [] SYSTEM_INITIATED None [])) = 0"
  by (simp add: createSession_def Let_def)

text \<open>
  C5, as the claim states it, fails.  \<open>busyStore\<close> holds 1000 sessions; its first
  session was last active at time 5000 and its second at time 1, the oldest last
  activity of the store.  \<open>createSession\<close> at time 6000 evicts the first session, the
  one most recently active, and keeps the second.
\<close>

theorem createSession_evicts_recently_active_counterexample:
  "length busyStore = MAX_ACTIVE_SESSIONS
   \<and> map_option updatedAt (Map_get busyStore (sessionKey 0)) = Some 5000
   \<and> map_option updatedAt (Map_get busyStore (sessionKey (Suc 0))) = Some 1
   \<and> Map_get (snd (createSession 6000 ''new-session'' [] USER_INITIATED None busyStore))
        (sessionKey 0) = None
   \<and> map_option updatedAt
        (Map_get (snd (createSession 6000 ''new-session'' [] USER_INITIATED None busyStore))
           (sessionKey (Suc 0))) = Some 1"
  using sessionKey_not_new [of 0] sessionKey_not_new [of "Suc 0"] sessionKey_inj [of "Suc 0" 0]
  by (simp add: snd_createSession_full length_busyStore hd_busyStore Map_get_Map_set
      Map_get_Map_delete Map_get_busyStore_0 Map_get_busyStore_1 updatedAt_firstSession)

text \<open>
  C5, amended.  When the store holds 1000 sessions or more, \<open>createSession\<close> evicts the
  session whose key is first in the insertion order of the store, whatever its last
  activity; every other session stays as it was; and the new session is in the store
  under its id.  \<open>updateSession\<close>, when it finds the session, stamps \<open>updatedAt\<close> with
  the time of the call and leaves the order of the keys as it was.
\<close>

theorem createSession_at_capacity_evicts_first_inserted:
  "(MAX_ACTIVE_SESSIONS \<le> length sessions \<longrightarrow>
      Map_get (snd (createSession now uuid uuid' m init sessions)) uuid
        = Some (fst (createSession now uuid uuid' m init sessions))
      \<and> (fst (hd sessions) \<noteq> uuid \<longrightarrow>
           Map_get (snd (createSession now uuid uuid' m init sessions)) (fst (hd sessions))
             = None)
      \<and> (\<forall>k. k \<noteq> fst (hd sessions) \<and> k \<noteq> uuid \<longrightarrow>
           Map_get (snd (createSession now uuid uuid' m init sessions)) k = Map_get sessions k))
   \<and> (fst (updateSession t sid u sessions) \<noteq> None \<longrightarrow>
      map fst (snd (updateSession t sid u sessions)) = map fst sessions
      \<and> map_option updatedAt (fst (updateSession t sid u sessions)) = Some t)"
proof (intro conjI impI)
  assume full: "MAX_ACTIVE_SESSIONS \<le> length sessions"
  show "Map_get (snd (createSession now uuid uuid' m init sessions)) uuid
        = Some (fst (createSession now uuid uuid' m init sessions))"
    using full by (simp add: snd_createSession_full Map_get_Map_set)
  show "Map_get (snd (createSession now uuid uuid' m init sessions)) (fst (hd sessions)) = None"
    if "fst (hd sessions) \<noteq> uuid"
    using full that by (simp add: snd_createSession_full Map_get_Map_set Map_get_Map_delete)
  show "\<forall>k. k \<noteq> fst (hd sessions) \<and> k \<noteq> uuid \<longrightarrow>
      Map_get (snd (createSession now uuid uuid' m init sessions)) k = Map_get sessions k"
    using full by (simp add: snd_createSession_full Map_get_Map_set Map_get_Map_delete)
next
  assume some: "fst (updateSession t sid u sessions) \<noteq> None"
  then obtain s where s: "Map_get sessions sid = Some s" "\<not> t - updatedAt s > TIMEOUT_MS"
    by (auto simp: updateSession_def getSession_cases split: option.splits if_splits)
  then have upd: "updateSession t sid u sessions =
      (Some ((mergeUpdates s u)\<lparr>updatedAt := t\<rparr>),
       Map_set sid ((mergeUpdates s u)\<lparr>updatedAt := t\<rparr>) sessions)"
    by (simp add: updateSession_def getSession_cases Let_def)
  show "map fst (snd (updateSession t sid u sessions)) = map fst sessions"
    using s(1) by (simp add: upd Map_set_keys)
  show "map_option updatedAt (fst (updateSession t sid u sessions)) = Some t"
    by (simp add: upd)
qed

theorem createSession_at_capacity_evicts_first_inserted_witness:
  "MAX_ACTIVE_SESSIONS \<le> length busyStore
   \<and> Map_get (snd (createSession 6000 ''new-session'' [] USER_INITIATED None busyStore))
        ''new-session''
      = Some (fst (createSession 6000 ''new-session'' [] USER_INITIATED None busyStore))
   \<and> Map_get (snd (createSession 6000 ''new-session'' [] USER_INITIATED None busyStore))
        (sessionKey 0) = None
   \<and> map fst (snd (updateSession 1000 ''s1'' noUpdates oneSession)) = map fst oneSession"
proof -
  have full: "MAX_ACTIVE_SESSIONS \<le> length busyStore"
    by (simp add: length_busyStore)
  have some: "fst (updateSession 1000 ''s1'' noUpdates oneSession) \<noteq> None"
    by (simp add: updateSession_def getSession_cases Map_get_oneSession updatedAt_oneSession
        TIMEOUT_MS_def Let_def)
  have new: "fst (hd busyStore) \<noteq> ''new-session''"
    using sessionKey_not_new [of 0] by (simp add: hd_busyStore)
  from createSession_at_capacity_evicts_first_inserted
      [of busyStore 6000 "''new-session''" "[]" USER_INITIATED None 1000 "''s1''" noUpdates]
    full new
  have "Map_get (snd (createSession 6000 ''new-session'' [] USER_INITIATED None busyStore))
        ''new-session''
      = Some (fst (createSession 6000 ''new-session'' [] USER_INITIATED None busyStore))"
    and "Map_get (snd (createSession 6000 ''new-session'' [] USER_INITIATED None busyStore))
        (fst (hd busyStore)) = None"
    by blast+
  moreover from createSession_at_capacity_evicts_first_inserted
      [of oneSession 0 "''n''" "[]" USER_INITIATED None 1000 "''s1''" noUpdates] some
  have "map fst (snd (updateSession 1000 ''s1'' noUpdates oneSession)) = map fst oneSession"
    by blast
  ultimately show ?thesis
    using full by (simp add: hd_busyStore)
qed

text \<open>
  C6.  \<open>getSession\<close> returns a session only when it is stored under the id and the time
  elapsed since its \<open>updatedAt\<close> is at most \<open>TIMEOUT_MS\<close>, 30 minutes, and it returns
  every such session, leaving the store as it is.  A stored session whose elapsed time
  exceeds \<open>TIMEOUT_MS\<close> is removed from the store and reported absent, without any
  explicit deletion; an id that is not stored is reported absent.
\<close>

theorem getSession_expiry:
  "(\<forall>s. fst (getSession now sid sessions) = Some s \<longrightarrow>
        Map_get sessions sid = Some s \<and> now - updatedAt s \<le> TIMEOUT_MS)
   \<and> (\<forall>s. Map_get sessions sid = Some s \<and> now - updatedAt s \<le> TIMEOUT_MS \<longrightarrow>
        getSession now sid sessions = (Some s, sessions))
   \<and> (\<forall>s. Map_get sessions sid = Some s \<and> now - updatedAt s > TIMEOUT_MS \<longrightarrow>
        getSession now sid sessions = (None, Map_delete sid sessions)
        \<and> Map_get (snd (getSession now sid sessions)) sid = None)
   \<and> (Map_get sessions sid = None \<longrightarrow> getSession now sid sessions = (None, sessions))
   \<and> TIMEOUT_MS = 30 * 60 * 1000"
  by (auto simp: getSession_cases Map_get_Map_delete TIMEOUT_MS_def split: option.splits if_splits)

theorem getSession_expiry_witness:
  "fst (getSession 1800000 ''s1'' oneSession) \<noteq> None
   \<and> fst (getSession 1800001 ''s1'' oneSession) = None
   \<and> Map_get (snd (getSession 1800001 ''s1'' oneSession)) ''s1'' = None"
proof -
  let ?s = "fst (createSession 0 ''s1'' [] SYSTEM_INITIATED None [])"
  have live: "Map_get oneSession ''s1'' = Some ?s \<and> 1800000 - updatedAt ?s \<le> TIMEOUT_MS"
    by (simp add: Map_get_oneSession updatedAt_oneSession TIMEOUT_MS_def)
  have late: "Map_get oneSession ''s1'' = Some ?s \<and> 1800001 - updatedAt ?s > TIMEOUT_MS"
    by (simp add: Map_get_oneSession updatedAt_oneSession TIMEOUT_MS_def)
  from getSession_expiry [of 1800000 "''s1''" oneSession] live
  have "getSession 1800000 ''s1'' oneSession = (Some ?s, oneSession)"
    by blast
  moreover from getSession_expiry [of 1800001 "''s1''" oneSession] late
  have "getSession 1800001 ''s1'' oneSession = (None, Map_delete ''s1'' oneSession)
      \<and> Map_get (snd (getSession 1800001 ''s1'' oneSession)) ''s1'' = None"
    by blast
  ultimately show ?thesis by (simp add: Map_get_Map_delete)
qed

lemma repeatGet_keeps_or_removes:
  "Map_get sessions sid = Some s \<Longrightarrow>
   Map_get (repeatGet ts sid sessions) sid = Some s \<or> Map_get (repeatGet ts sid sessions) sid = None"
proof (induction ts arbitrary: sessions)
  case Nil
  then show ?case by simp
next
  case (Cons t ts)
  show ?case
  proof (cases "t - updatedAt s > TIMEOUT_MS")
    case True
    then have "snd (getSession t sid sessions) = Map_delete sid sessions"
      using Cons.prems by (simp add: getSession_cases)
    moreover have "Map_get (repeatGet ts sid st) sid = None" if "Map_get st sid = None" for st
      using that
    proof (induction ts arbitrary: st)
      case Nil
      then show ?case by simp
    next
      case (Cons a ts)
      then show ?case by (simp add: getSession_cases)
    qed
    ultimately show ?thesis by (simp add: Map_get_Map_delete)
  next
    case False
    then have "snd (getSession t sid sessions) = sessions"
      using Cons.prems by (simp add: getSession_cases)
    then show ?thesis using Cons.IH [OF Cons.prems] by simp
  qed
qed

lemma repeatGet_within:
  "Map_get sessions sid = Some s \<Longrightarrow> \<forall>t \<in> set ts. t - updatedAt s \<le> TIMEOUT_MS \<Longrightarrow>
   repeatGet ts sid sessions = sessions"
  by (induction ts) (simp_all add: getSession_cases)

text \<open>
  C10.  \<open>getSession\<close> on a stored session within the time-to-live returns the stored
  session itself and leaves the store unchanged, so \<open>updatedAt\<close> is not refreshed.
  Any number of such calls leaves the store unchanged, and after any calls of
  \<open>getSession\<close> whatever, a call later than \<open>TIMEOUT_MS\<close> after the session's
  \<open>updatedAt\<close> reports it absent.
\<close>

theorem getSession_read_only:
  "Map_get sessions sid = Some s \<Longrightarrow>
   (now - updatedAt s \<le> TIMEOUT_MS \<longrightarrow> getSession now sid sessions = (Some s, sessions))
   \<and> ((\<forall>t \<in> set ts. t - updatedAt s \<le> TIMEOUT_MS) \<longrightarrow> repeatGet ts sid sessions = sessions)
   \<and> (now - updatedAt s > TIMEOUT_MS \<longrightarrow>
        fst (getSession now sid (repeatGet ts sid sessions)) = None)"
proof (intro conjI impI)
  assume a: "Map_get sessions sid = Some s"
  { assume "now - updatedAt s \<le> TIMEOUT_MS"
    then show "getSession now sid sessions = (Some s, sessions)"
      using a by (simp add: getSession_cases) }
  { assume "\<forall>t \<in> set ts. t - updatedAt s \<le> TIMEOUT_MS"
    then show "repeatGet ts sid sessions = sessions"
      using a by (simp add: repeatGet_within) }
  { assume "now - updatedAt s > TIMEOUT_MS"
    then show "fst (getSession now sid (repeatGet ts sid sessions)) = None"
      using repeatGet_keeps_or_removes [OF a, of ts] by (auto simp: getSession_cases) }
qed


theorem getSession_read_only_witness:
  "getSession 1000 ''s1'' oneSession
     = (Some (fst (createSession 0 ''s1'' [] SYSTEM_INITIATED None [])), oneSession)
   \<and> repeatGet [1000, 900000, 1800000] ''s1'' oneSession = oneSession
   \<and> fst (getSession 1800001 ''s1'' (repeatGet [1000, 900000, 1800000] ''s1'' oneSession)) = None"
proof -
  let ?s = "fst (createSession 0 ''s1'' [] SYSTEM_INITIATED None [])"
  let ?ts = "[1000, 900000, 1800000] :: int list"
  have within: "1000 - updatedAt ?s \<le> TIMEOUT_MS"
    by (simp add: updatedAt_oneSession TIMEOUT_MS_def)
  have each: "\<forall>t \<in> set ?ts. t - updatedAt ?s \<le> TIMEOUT_MS"
    by (simp add: updatedAt_oneSession TIMEOUT_MS_def)
  have late: "1800001 - updatedAt ?s > TIMEOUT_MS"
    by (simp add: updatedAt_oneSession TIMEOUT_MS_def)
  from getSession_read_only [OF Map_get_oneSession, of 1000 ?ts] within each
  have "getSession 1000 ''s1'' oneSession = (Some ?s, oneSession)"
    and "repeatGet ?ts ''s1'' oneSession = oneSession"
    by blast+
  moreover from getSession_read_only [OF Map_get_oneSession, of 1800001 ?ts] late
  have "fst (getSession 1800001 ''s1'' (repeatGet ?ts ''s1'' oneSession)) = None"
    by blast
  ultimately show ?thesis by blast
qed

end
